theory Spec2Isabelle
  imports Main "HOL-Library.Char_ord" "HOL-Library.List_Lexorder" "HOL-Library.Multiset"
begin

section \<open>Values exchanged between the managers\<close>

text \<open>
  The application is a set of JavaScript classes (\<open>EmergencyManager\<close>, \<open>StorageManager\<close>,
  \<open>BluetoothManager\<close>, ...) that call each other through promises. The embedding keeps the
  fields and the control flow of \<open>js/emergency.js\<close>, \<open>js/storage.js\<close> and of the Bluetooth
  manager, and replaces every call that leaves these classes (geolocation, the media
  recorder, Firestore, the GATT characteristic, the IndexedDB request, the clock, the random
  generator) by the answer it gives, read from an environment record. A rejected promise
  or a thrown exception is the value \<open>Inl (Error msg)\<close>. Every such call is taken to
  settle (the source sets no timeout on any of them), and the calls of a manager are taken
  one at a time: a call runs to its end before the next one starts.
\<close>

datatype thrown = Error (message: string)

record location =
  latitude :: int
  longitude :: int
  address :: "string option"

text \<open>
  What \<open>startEmergencyAudioRecording\<close> returns when it does not return \<open>null\<close>:
  \<open>{started: true, startTime, maxDuration}\<close> or \<open>{started: false, error}\<close>.
\<close>

datatype recording = Started nat nat | NotStarted string

record contact =
  contact_id :: string
  contact_name :: string
  contact_email :: string

record emergency_data =
  ed_location :: "location option"
  ed_audioRecording :: "recording option"
  ed_contacts :: "contact list"
  ed_timestamp :: nat
  ed_emergencyId :: "string option"

record channel_result =
  sent :: nat
  failed :: nat
  errors :: "string list"

record alert_results =
  bluetooth :: channel_result
  firebase :: channel_result
  authorities :: channel_result
  totalSent :: nat
  totalFailed :: nat

section \<open>The emergencies object store (\<open>js/storage.js\<close>)\<close>

datatype emergency_status = Active | Cancelled

text \<open>
  A row of the \<open>emergencies\<close> object store, and also the object handed to
  \<open>saveEmergency\<close>. An absent \<open>id\<close> is the empty string and an absent \<open>timestamp\<close> is
  \<open>0\<close>: both are falsy for the \<open>||\<close> in \<open>saveEmergency\<close>, like \<open>undefined\<close>. In an
  object handed to \<open>saveEmergency\<close> the fields \<open>synced\<close> and \<open>createdAt\<close> are
  placeholders: the caller does not set them and \<open>saveEmergency\<close> writes both.
\<close>

record emergency_record =
  rec_id :: string
  rec_originalId :: "string option"
  rec_type :: string
  rec_data :: "emergency_data option"
  rec_alertResults :: "alert_results option"
  rec_timestamp :: nat
  rec_duration :: "int option"
  rec_status :: "emergency_status option"
  synced :: bool
  createdAt :: nat

text \<open>
  The store has key path \<open>id\<close>. Its contents are kept as the list of rows in ascending key
  order, which is the order in which IndexedDB returns them; keys are compared as strings.
\<close>

type_synonym store = "emergency_record list"

definition key_exists :: "string \<Rightarrow> store \<Rightarrow> bool" where
  "key_exists k db = (k \<in> set (map rec_id db))"

text \<open>
  \<open>store.add(data)\<close>: the request fails when the environment says so (no database, aborted
  transaction, quota) and when the key is already present; \<open>add\<close> never overwrites.
\<close>

definition store_add :: "thrown option \<Rightarrow> emergency_record \<Rightarrow> store \<Rightarrow> thrown + store" where
  "store_add failure r db =
     (case failure of
        Some e \<Rightarrow> Inl e
      | None \<Rightarrow>
          if key_exists (rec_id r) db then Inl (Error ''ConstraintError'')
          else Inr (insort_key rec_id r db))"

text \<open>\<open>store.get(id)\<close>: the row stored under a key, if there is one.\<close>

definition store_get :: "string \<Rightarrow> store \<Rightarrow> emergency_record option" where
  "store_get k db = find (\<lambda>r. rec_id r = k) db"

record storage_env =
  requestFailure :: "thrown option"
  generateId :: string
  storageNow :: nat
  storageCreatedAt :: nat

text \<open>
  The object \<open>data\<close> that \<open>saveEmergency\<close> builds from its argument: the argument's
  fields, then \<open>id\<close>, \<open>timestamp\<close>, \<open>synced\<close> and \<open>createdAt\<close> written over them.
\<close>

definition saveEmergency_data :: "storage_env \<Rightarrow> emergency_record \<Rightarrow> emergency_record" where
  "saveEmergency_data se emergencyData =
     emergencyData
       \<lparr> rec_id := (if rec_id emergencyData = [] then generateId se
                    else rec_id emergencyData),
         rec_timestamp := (if rec_timestamp emergencyData = 0 then storageNow se
                           else rec_timestamp emergencyData),
         synced := False,
         createdAt := storageCreatedAt se \<rparr>"

definition saveEmergency ::
  "storage_env \<Rightarrow> emergency_record \<Rightarrow> store \<Rightarrow> (thrown + string) \<times> store" where
  "saveEmergency se emergencyData db =
     (let data = saveEmergency_data se emergencyData
      in case store_add (requestFailure se) data db of
           Inl err \<Rightarrow> (Inl err, db)
         | Inr db' \<Rightarrow> (Inr (rec_id data), db'))"

text \<open>
  The values that the code uses as index keys or as queries. By the rules of IndexedDB
  (the platform's, not this repository's) a number and a string are keys and a boolean is
  not: a row whose key path yields a boolean has no entry in that index, and a query that
  is not a key makes \<open>getAll\<close> throw a \<open>DataError\<close>.
\<close>

datatype idb_value = IdbNumber nat | IdbString string | IdbBoolean bool

fun valid_key :: "idb_value \<Rightarrow> bool" where
  "valid_key (IdbNumber _) = True"
| "valid_key (IdbString _) = True"
| "valid_key (IdbBoolean _) = False"

text \<open>\<open>index.getAll(query)\<close> on an index with the given key path.\<close>

definition index_getAll ::
  "(emergency_record \<Rightarrow> idb_value) \<Rightarrow> idb_value \<Rightarrow> store \<Rightarrow> thrown + emergency_record list" where
  "index_getAll keyPath query db =
     (if \<not> valid_key query then Inl (Error ''DataError'')
      else Inr (filter (\<lambda>r. valid_key (keyPath r) \<and> keyPath r = query) db))"

text \<open>
  \<open>getPendingEmergencies\<close> reads the \<open>synced\<close> index with the query \<open>false\<close>. The
  first argument is the failure to open the transaction, if any; the \<open>catch\<close> turns
  that failure, and the one of \<open>getAll\<close>, into the empty list. The function takes no
  time and reads no retry field.
\<close>

definition getPendingEmergencies :: "thrown option \<Rightarrow> store \<Rightarrow> emergency_record list" where
  "getPendingEmergencies failure db =
     (case failure of
        Some e \<Rightarrow> []
      | None \<Rightarrow>
          (case index_getAll (\<lambda>r. IdbBoolean (synced r)) (IdbBoolean False) db of
             Inl err \<Rightarrow> []
           | Inr pending \<Rightarrow> pending))"

section \<open>The emergency manager (\<open>js/emergency.js\<close>)\<close>

text \<open>
  Every call the manager makes on a collaborator is logged as an event, in the order in
  which the calls are started. The three context procedures and the three alert methods
  are \<open>async\<close> functions started in source order before \<open>Promise.allSettled\<close> is
  awaited: each runs at once up to its first \<open>await\<close>, which is its first collaborator
  call, and makes its later calls afterwards. Timers set with \<open>setTimeout\<close> by the
  recorder and by the Bluetooth broadcast fire after the call that set them and are not
  part of the log.
\<close>

datatype alert_kind = EmergencyAlert | CancellationAlert

datatype event =
    GetCurrentLocation
  | GetAddressFromCoordinates
  | GetSetting string
  | StartRecording
  | GetContacts
  | BroadcastEmergency "string option"
  | SaveEmergencyAlert "string option"
  | SendEmergencyNotification string alert_kind
  | SendEmergencyToAuthorities "string option"
  | FetchNotifyAuthorities "string option"
  | SaveEmergency emergency_record
  | StopRecording
  | SaveAudioRecording
  | BluetoothSendMessage alert_kind

fun is_channel_send :: "event \<Rightarrow> bool" where
  "is_channel_send (BroadcastEmergency _) = True"
| "is_channel_send (SaveEmergencyAlert _) = True"
| "is_channel_send (SendEmergencyNotification _ _) = True"
| "is_channel_send (SendEmergencyToAuthorities _) = True"
| "is_channel_send (FetchNotifyAuthorities _) = True"
| "is_channel_send (BluetoothSendMessage _) = True"
| "is_channel_send _ = False"

text \<open>The sends that carry the emergency alert itself, not its cancellation.\<close>

fun is_emergency_dispatch :: "event \<Rightarrow> bool" where
  "is_emergency_dispatch (BroadcastEmergency _) = True"
| "is_emergency_dispatch (SaveEmergencyAlert _) = True"
| "is_emergency_dispatch (SendEmergencyNotification _ EmergencyAlert) = True"
| "is_emergency_dispatch (SendEmergencyToAuthorities _) = True"
| "is_emergency_dispatch (FetchNotifyAuthorities _) = True"
| "is_emergency_dispatch _ = False"

fun is_journal_write :: "event \<Rightarrow> bool" where
  "is_journal_write (SaveEmergency _) = True"
| "is_journal_write _ = False"

record audio_record =
  ar_emergencyId :: "string option"
  ar_duration :: nat
  ar_type :: string

text \<open>
  The fields of the manager, the two object stores it writes, and the log. \<open>hasBluetooth\<close>,
  \<open>hasFirebase\<close> and \<open>hasAudio\<close> say whether \<open>this.bluetooth\<close>, \<open>this.firebase\<close> and
  \<open>this.audio\<close> are set: the source tests exactly these three.
\<close>

record system =
  hasBluetooth :: bool
  hasFirebase :: bool
  hasAudio :: bool
  isEmergencyActive :: bool
  currentEmergencyId :: "string option"
  emergencyStartTime :: "nat option"
  retryAttempts :: nat
  retryDelay :: nat
  emergencies :: store
  audioRecordings :: "audio_record list"
  trace :: "event list"

text \<open>The state the constructor builds, before \<open>init\<close> sets the collaborators.\<close>

definition constructor :: system where
  "constructor =
     \<lparr> hasBluetooth = False, hasFirebase = False, hasAudio = False,
       isEmergencyActive = False, currentEmergencyId = None, emergencyStartTime = None,
       retryAttempts = 3, retryDelay = 5000,
       emergencies = [], audioRecordings = [], trace = [] \<rparr>"

text \<open>\<open>init(managers)\<close> sets the collaborators; a flag says whether one is given.\<close>

definition init :: "bool \<Rightarrow> bool \<Rightarrow> bool \<Rightarrow> system \<Rightarrow> system" where
  "init b f a s = s\<lparr>hasBluetooth := b, hasFirebase := f, hasAudio := a\<rparr>"

text \<open>
  The answers of the collaborators during one call of \<open>activateEmergency\<close> or
  \<open>cancelEmergency\<close>. \<open>sendEmergencyNotification\<close> is indexed by the position of the
  contact in the list that is iterated. \<open>navigator.onLine\<close> is read once by
  \<open>getEmergencyLocation\<close>, after the position has arrived (\<open>onlineAtLocation\<close>), and
  later by the dispatch or by the cancellation alerts, whose guards read it with no
  \<open>await\<close> in between (\<open>online\<close>). \<open>locationSettlesFirst\<close> says whether the
  position arrives before the setting has been read. When no recorder is set,
  \<open>this.audio.startRecording()\<close> throws a \<open>TypeError\<close>: that is an environment with
  \<open>startRecording = Some err\<close>.
\<close>

record env =
  online :: bool
  onlineAtLocation :: bool
  locationSettlesFirst :: bool
  dateNow :: nat
  idTime :: nat
  idRandom :: string
  getCurrentLocation :: "thrown + location option"
  getAddressFromCoordinates :: "thrown + string"
  getLocationForEmergency :: "location option"
  getSetting :: "thrown + bool option"
  startRecording :: "thrown option"
  recordingStartTime :: nat
  getContacts :: "thrown + contact list"
  dataTimestamp :: nat
  broadcastEmergency :: "thrown option"
  saveEmergencyAlert :: "thrown option"
  sendEmergencyNotification :: "nat \<Rightarrow> thrown option"
  sendEmergencyToAuthorities :: "thrown option"
  fetchNotifyAuthorities :: "thrown + bool \<times> nat"
  storageEnv :: storage_env
  audioIsRecording :: bool
  stopRecording :: "thrown + nat option"
  recordedBlobType :: string
  saveAudioRecording :: "thrown option"
  cancelTimestamp :: nat
  cancelDurationNow :: nat

subsection \<open>Number rendering\<close>

definition digit :: "nat \<Rightarrow> char" where
  "digit d = ''0123456789abcdefghijklmnopqrstuvwxyz'' ! d"

text \<open>\<open>Number.prototype.toString(radix)\<close> on a non-negative integer, for radix 36 and 10.\<close>

fun toString36 :: "nat \<Rightarrow> string" where
  "toString36 n = (if n < 36 then [digit n] else toString36 (n div 36) @ [digit (n mod 36)])"

fun toString10 :: "nat \<Rightarrow> string" where
  "toString10 n = (if n < 10 then [digit n] else toString10 (n div 10) @ [digit (n mod 10)])"

declare toString36.simps [simp del]
declare toString10.simps [simp del]

text \<open>
  \<open>generateEmergencyId\<close>: \<open>idRandom\<close> is \<open>Math.random().toString(36)\<close> after its leading
  \<open>0.\<close>, of which \<open>substr(2, 5)\<close> keeps five characters.
\<close>

definition generateEmergencyId :: "nat \<Rightarrow> string \<Rightarrow> string" where
  "generateEmergencyId t r = ''emer_'' @ toString36 t @ ''_'' @ take 5 r"

subsection \<open>Context gathering\<close>

datatype 'a settled = Fulfilled 'a | Rejected thrown

definition getEmergencyLocation :: "env \<Rightarrow> location option settled \<times> event list" where
  "getEmergencyLocation e =
     (case getCurrentLocation e of
        Inr (Some loc) \<Rightarrow>
          if onlineAtLocation e then
            (case getAddressFromCoordinates e of
               Inr a \<Rightarrow> (Fulfilled (Some (loc\<lparr>address := Some a\<rparr>)),
                          [GetCurrentLocation, GetAddressFromCoordinates])
             | Inl err \<Rightarrow> (Fulfilled (Some loc),
                          [GetCurrentLocation, GetAddressFromCoordinates]))
          else (Fulfilled (Some loc), [GetCurrentLocation])
      | Inr None \<Rightarrow> (Fulfilled (getLocationForEmergency e), [GetCurrentLocation])
      | Inl err \<Rightarrow> (Fulfilled (getLocationForEmergency e), [GetCurrentLocation]))"

definition startEmergencyAudioRecording :: "env \<Rightarrow> recording option settled \<times> event list" where
  "startEmergencyAudioRecording e =
     (case getSetting e of
        Inl err \<Rightarrow> (Fulfilled (Some (NotStarted (message err))), [GetSetting ''audioRecording''])
      | Inr (Some False) \<Rightarrow> (Fulfilled None, [GetSetting ''audioRecording''])
      | Inr _ \<Rightarrow>
          (case startRecording e of
             Some err \<Rightarrow> (Fulfilled (Some (NotStarted (message err))),
                          [GetSetting ''audioRecording'', StartRecording])
           | None \<Rightarrow> (Fulfilled (Some (Started (recordingStartTime e) 120000)),
                      [GetSetting ''audioRecording'', StartRecording])))"

definition getTrustedContacts :: "env \<Rightarrow> contact list settled \<times> event list" where
  "getTrustedContacts e =
     (case getContacts e of
        Inr cs \<Rightarrow> (Fulfilled cs, [GetContacts])
      | Inl err \<Rightarrow> (Fulfilled [], [GetContacts]))"

text \<open>
  The three procedures are pushed in source order, so their first calls are made in that
  order; the address lookup and the start of the recorder follow, in the order in which
  the position and the setting arrive.
\<close>

definition executeEmergencyProcedures :: "env \<Rightarrow> system \<Rightarrow> emergency_data \<times> event list" where
  "executeEmergencyProcedures e s =
     (let (location, ev1) = getEmergencyLocation e;
          (audioRecording, ev2) = startEmergencyAudioRecording e;
          (contacts, ev3) = getTrustedContacts e
      in (\<lparr> ed_location = (case location of Fulfilled v \<Rightarrow> v | Rejected _ \<Rightarrow> None),
            ed_audioRecording = (case audioRecording of Fulfilled v \<Rightarrow> v | Rejected _ \<Rightarrow> None),
            ed_contacts = (case contacts of Fulfilled v \<Rightarrow> v | Rejected _ \<Rightarrow> []),
            ed_timestamp = dataTimestamp e,
            ed_emergencyId = currentEmergencyId s \<rparr>,
          take 1 ev1 @ take 1 ev2 @ take 1 ev3 @
          (if locationSettlesFirst e then drop 1 ev1 @ drop 1 ev2 else drop 1 ev2 @ drop 1 ev1) @
          drop 1 ev3))"

subsection \<open>Alert dispatch\<close>

text \<open>\<open>results.c.sent++\<close>, and \<open>results.c.failed++; results.c.errors.push(msg)\<close>.\<close>

definition count_sent :: "channel_result \<Rightarrow> channel_result" where
  "count_sent r = r\<lparr>sent := sent r + 1\<rparr>"

definition count_failed :: "string \<Rightarrow> channel_result \<Rightarrow> channel_result" where
  "count_failed msg r = r\<lparr>failed := failed r + 1, errors := errors r @ [msg]\<rparr>"

definition sendBluetoothAlerts ::
  "env \<Rightarrow> emergency_data \<Rightarrow> alert_results \<Rightarrow> alert_results \<times> event list" where
  "sendBluetoothAlerts e emergencyData results =
     (case broadcastEmergency e of
        None \<Rightarrow> (results\<lparr>bluetooth := count_sent (bluetooth results)\<rparr>,
                  [BroadcastEmergency (ed_emergencyId emergencyData)])
      | Some err \<Rightarrow> (results\<lparr>bluetooth := count_failed (message err) (bluetooth results)\<rparr>,
                     [BroadcastEmergency (ed_emergencyId emergencyData)]))"

text \<open>
  The loop over the contacts inside \<open>sendFirebaseAlerts\<close>; \<open>i\<close> is the position of the
  next contact. A failed notification is counted and the loop goes on.
\<close>

fun notifyContacts ::
  "(nat \<Rightarrow> thrown option) \<Rightarrow> nat \<Rightarrow> contact list \<Rightarrow> channel_result \<Rightarrow> channel_result" where
  "notifyContacts f i [] r = r"
| "notifyContacts f i (c # cs) r =
     notifyContacts f (Suc i) cs
       (case f i of
          None \<Rightarrow> count_sent r
        | Some err \<Rightarrow> count_failed (contact_email c @ '': '' @ message err) r)"

definition sendFirebaseAlerts ::
  "env \<Rightarrow> emergency_data \<Rightarrow> alert_results \<Rightarrow> alert_results \<times> event list" where
  "sendFirebaseAlerts e emergencyData results =
     (case saveEmergencyAlert e of
        Some err \<Rightarrow> (results\<lparr>firebase := count_failed (message err) (firebase results)\<rparr>,
                     [SaveEmergencyAlert (ed_emergencyId emergencyData)])
      | None \<Rightarrow>
          (results\<lparr>firebase := notifyContacts (sendEmergencyNotification e) 0
                                  (ed_contacts emergencyData) (firebase results)\<rparr>,
           SaveEmergencyAlert (ed_emergencyId emergencyData) #
           map (\<lambda>c. SendEmergencyNotification (contact_id c) EmergencyAlert)
             (ed_contacts emergencyData)))"

definition notifyAuthorities ::
  "env \<Rightarrow> system \<Rightarrow> emergency_data \<Rightarrow> alert_results \<Rightarrow> alert_results \<times> event list" where
  "notifyAuthorities e s emergencyData results =
     (if hasFirebase s then
        (case sendEmergencyToAuthorities e of
           None \<Rightarrow> (results\<lparr>authorities := count_sent (authorities results)\<rparr>,
                     [SendEmergencyToAuthorities (ed_emergencyId emergencyData)])
         | Some err \<Rightarrow> (results\<lparr>authorities := count_failed (message err) (authorities results)\<rparr>,
                        [SendEmergencyToAuthorities (ed_emergencyId emergencyData)]))
      else
        (case fetchNotifyAuthorities e of
           Inl err \<Rightarrow> (results\<lparr>authorities := count_failed (message err) (authorities results)\<rparr>,
                       [FetchNotifyAuthorities (ed_emergencyId emergencyData)])
         | Inr (ok, status) \<Rightarrow>
             if ok then (results\<lparr>authorities := count_sent (authorities results)\<rparr>,
                         [FetchNotifyAuthorities (ed_emergencyId emergencyData)])
             else (results\<lparr>authorities :=
                              count_failed (''Authority notification failed: '' @ toString10 status)
                                (authorities results)\<rparr>,
                   [FetchNotifyAuthorities (ed_emergencyId emergencyData)])))"

definition initial_results :: alert_results where
  "initial_results =
     \<lparr> bluetooth = \<lparr>sent = 0, failed = 0, errors = []\<rparr>,
       firebase = \<lparr>sent = 0, failed = 0, errors = []\<rparr>,
       authorities = \<lparr>sent = 0, failed = 0, errors = []\<rparr>,
       totalSent = 0, totalFailed = 0 \<rparr>"

text \<open>
  The one \<open>results\<close> object is handed to each alert method that is started, and each
  method writes its own component. The three \<open>if\<close>s are the guards of the source. The
  first call of each started method is made when the method is pushed; the notifications
  of the contacts follow once \<open>saveEmergencyAlert\<close> has answered.
\<close>

definition sendEmergencyAlerts ::
  "env \<Rightarrow> system \<Rightarrow> emergency_data \<Rightarrow> alert_results \<times> event list" where
  "sendEmergencyAlerts e s emergencyData =
     (let (r1, ev1) =
            (if hasBluetooth s \<and> length (ed_contacts emergencyData) > 0
             then sendBluetoothAlerts e emergencyData initial_results
             else (initial_results, []));
          (r2, ev2) =
            (if hasFirebase s \<and> online e \<and> length (ed_contacts emergencyData) > 0
             then sendFirebaseAlerts e emergencyData r1
             else (r1, []));
          (r3, ev3) =
            (if online e then notifyAuthorities e s emergencyData r2 else (r2, []))
      in (r3\<lparr> totalSent := sent (bluetooth r3) + sent (firebase r3) + sent (authorities r3),
               totalFailed := failed (bluetooth r3) + failed (firebase r3)
                              + failed (authorities r3) \<rparr>,
          take 1 ev1 @ take 1 ev2 @ take 1 ev3 @ drop 1 ev1 @ drop 1 ev2 @ drop 1 ev3))"

subsection \<open>Activation\<close>

record summary =
  sum_emergencyId :: string
  alertsSent :: nat
  sum_location :: "location option"
  sum_recording :: "recording option"

text \<open>
  The result is \<open>Inl err\<close> when the promise rejects, \<open>Inr None\<close> when the function returns
  without a value, and \<open>Inr (Some summary)\<close> otherwise.
\<close>

text \<open>The object that \<open>activateEmergency\<close> hands to \<open>saveEmergency\<close>.\<close>

definition activation_row ::
  "string \<Rightarrow> nat \<Rightarrow> emergency_data \<Rightarrow> alert_results \<Rightarrow> emergency_record" where
  "activation_row eid start emergencyData alertResults =
     \<lparr> rec_id = eid, rec_originalId = None, rec_type = ''manual'',
       rec_data = Some emergencyData, rec_alertResults = Some alertResults,
       rec_timestamp = start, rec_duration = None,
       rec_status = Some Active, synced = False, createdAt = 0 \<rparr>"

definition activateEmergency :: "env \<Rightarrow> system \<Rightarrow> (thrown + summary option) \<times> system" where
  "activateEmergency e s =
     (if isEmergencyActive s then (Inr None, s)
      else
        let eid = generateEmergencyId (idTime e) (idRandom e);
            s1 = s\<lparr> isEmergencyActive := True,
                     emergencyStartTime := Some (dateNow e),
                     currentEmergencyId := Some eid \<rparr>;
            (emergencyData, ev1) = executeEmergencyProcedures e s1;
            (alertResults, ev2) = sendEmergencyAlerts e s1 emergencyData;
            row = activation_row eid (dateNow e) emergencyData alertResults;
            (saved, db) = saveEmergency (storageEnv e) row (emergencies s1);
            s2 = s1\<lparr> emergencies := db,
                      trace := trace s1 @ ev1 @ ev2 @ [SaveEmergency row] \<rparr>
        in case saved of
             Inl err \<Rightarrow> (Inl err, s2\<lparr>isEmergencyActive := False\<rparr>)
           | Inr _ \<Rightarrow>
               (Inr (Some \<lparr> sum_emergencyId = eid,
                            alertsSent = totalSent alertResults,
                            sum_location = ed_location emergencyData,
                            sum_recording = ed_audioRecording emergencyData \<rparr>),
                s2))"

subsection \<open>Cancellation\<close>

text \<open>
  The loop of \<open>sendCancellationAlerts\<close> has no \<open>try\<close> of its own: the first notification
  that fails ends it.
\<close>

fun notifyCancellation :: "(nat \<Rightarrow> thrown option) \<Rightarrow> nat \<Rightarrow> contact list \<Rightarrow> event list" where
  "notifyCancellation f i [] = []"
| "notifyCancellation f i (c # cs) =
     SendEmergencyNotification (contact_id c) CancellationAlert #
     (case f i of None \<Rightarrow> notifyCancellation f (Suc i) cs | Some err \<Rightarrow> [])"

definition sendCancellationAlerts :: "env \<Rightarrow> system \<Rightarrow> event list" where
  "sendCancellationAlerts e s =
     (if hasBluetooth s then [BluetoothSendMessage CancellationAlert] else []) @
     (if hasFirebase s \<and> online e then
        (case getContacts e of
           Inl err \<Rightarrow> [GetContacts]
         | Inr cs \<Rightarrow> GetContacts # notifyCancellation (sendEmergencyNotification e) 0 cs)
      else [])"

text \<open>
  Stopping the recorder and saving what it recorded; every failure is caught.
  \<open>saveAudioRecording\<close> stores the metadata it is given with \<open>type\<close> overwritten by the
  MIME type of the recorded blob, so the \<open>'emergency-cancelled'\<close> of the caller is not
  what is stored.
\<close>

definition stopAndSaveRecording :: "env \<Rightarrow> system \<Rightarrow> system" where
  "stopAndSaveRecording e s =
     (if hasAudio s \<and> audioIsRecording e then
        (case stopRecording e of
           Inl err \<Rightarrow> s\<lparr>trace := trace s @ [StopRecording]\<rparr>
         | Inr None \<Rightarrow> s\<lparr>trace := trace s @ [StopRecording]\<rparr>
         | Inr (Some d) \<Rightarrow>
             (case saveAudioRecording e of
                Some err \<Rightarrow> s\<lparr>trace := trace s @ [StopRecording, SaveAudioRecording]\<rparr>
              | None \<Rightarrow>
                  s\<lparr> audioRecordings := audioRecordings s @
                        [\<lparr> ar_emergencyId = currentEmergencyId s, ar_duration = d,
                           ar_type = recordedBlobType e \<rparr>],
                      trace := trace s @ [StopRecording, SaveAudioRecording] \<rparr>))
      else s)"

text \<open>
  The cancellation row. \<open>Date.now() - this.emergencyStartTime\<close> is computed on JavaScript
  numbers; a \<open>null\<close> start time counts as \<open>0\<close>.
\<close>

definition cancellation_row :: "env \<Rightarrow> system \<Rightarrow> string \<Rightarrow> emergency_record" where
  "cancellation_row e s cur =
     \<lparr> rec_id = cur @ ''-cancelled'', rec_originalId = Some cur, rec_type = ''cancellation'',
       rec_data = None, rec_alertResults = None,
       rec_timestamp = cancelTimestamp e,
       rec_duration = Some (int (cancelDurationNow e)
                            - (case emergencyStartTime s of None \<Rightarrow> 0 | Some t \<Rightarrow> int t)),
       rec_status = Some Cancelled, synced = False, createdAt = 0 \<rparr>"

definition saveCancellation :: "env \<Rightarrow> system \<Rightarrow> system" where
  "saveCancellation e s =
     (case currentEmergencyId s of
        None \<Rightarrow> s
      | Some cur \<Rightarrow>
          if cur = [] then s
          else
            let row = cancellation_row e s cur;
                (saved, db) = saveEmergency (storageEnv e) row (emergencies s)
            in s\<lparr>emergencies := db, trace := trace s @ [SaveEmergency row]\<rparr>)"

definition cancelEmergency :: "env \<Rightarrow> system \<Rightarrow> (thrown + unit) \<times> system" where
  "cancelEmergency e s =
     (if \<not> isEmergencyActive s then (Inr (), s)
      else
        let s1 = stopAndSaveRecording e s;
            s2 = saveCancellation e s1;
            s3 = s2\<lparr>trace := trace s2 @ sendCancellationAlerts e s2\<rparr>
        in (Inr (), s3\<lparr> isEmergencyActive := False,
                        currentEmergencyId := None,
                        emergencyStartTime := None \<rparr>))"

section \<open>The Bluetooth manager\<close>

text \<open>
  The manager's connection flag, whether \<open>this.characteristic\<close> is set, and its in-memory
  queue. \<open>written\<close> lists the messages handed to \<open>characteristic.writeValue\<close> that the
  device accepted, and \<open>timers\<close> the pending \<open>setTimeout\<close> calls as delay and callback.
\<close>

datatype timer = AttemptReconnect

record 'm bluetooth_manager =
  isConnected :: bool
  hasCharacteristic :: bool
  messageQueue :: "'m list"
  written :: "'m list"
  timers :: "(nat \<times> timer) list"

text \<open>
  \<open>sendMessage\<close>: the first argument is the failure of encoding and writing the message,
  if any. It is not consulted when the manager is not connected. The messages that
  \<open>processMessageQueue\<close> puts back are queued in the order of the copied queue; the
  source queues them in the order in which their writes fail.
\<close>

definition sendMessage ::
  "thrown option \<Rightarrow> 'm \<Rightarrow> 'm bluetooth_manager \<Rightarrow> (thrown + bool) \<times> 'm bluetooth_manager" where
  "sendMessage w m b =
     (if \<not> isConnected b \<or> \<not> hasCharacteristic b
      then (Inr False, b\<lparr>messageQueue := messageQueue b @ [m]\<rparr>)
      else
        (case w of
           None \<Rightarrow> (Inr True, b\<lparr>written := written b @ [m]\<rparr>)
         | Some err \<Rightarrow> (Inl err, b\<lparr>messageQueue := messageQueue b @ [m]\<rparr>)))"

text \<open>
  \<open>processMessageQueue\<close> copies the queue, empties it and calls \<open>sendMessage\<close> on each
  copied message, catching what it throws; \<open>w i\<close> is the failure of the \<open>i\<close>-th write.
\<close>

fun sendQueued ::
  "(nat \<Rightarrow> thrown option) \<Rightarrow> nat \<Rightarrow> 'm list \<Rightarrow> 'm bluetooth_manager \<Rightarrow> 'm bluetooth_manager" where
  "sendQueued w i [] b = b"
| "sendQueued w i (m # ms) b = sendQueued w (Suc i) ms (snd (sendMessage (w i) m b))"

definition processMessageQueue ::
  "(nat \<Rightarrow> thrown option) \<Rightarrow> 'm bluetooth_manager \<Rightarrow> 'm bluetooth_manager" where
  "processMessageQueue w b =
     (if length (messageQueue b) = 0 then b
      else sendQueued w 0 (messageQueue b) (b\<lparr>messageQueue := []\<rparr>))"

text \<open>
  \<open>connect\<close> either completes, or fails with an error, before or after
  \<open>this.characteristic\<close> was assigned (the flag of \<open>ConnectFailed\<close>).
\<close>

datatype connect_outcome = Connected | ConnectFailed thrown bool

definition connect ::
  "connect_outcome \<Rightarrow> (nat \<Rightarrow> thrown option) \<Rightarrow> 'm bluetooth_manager
     \<Rightarrow> (thrown + bool) \<times> 'm bluetooth_manager" where
  "connect c w b =
     (case c of
        Connected \<Rightarrow>
          (Inr True, processMessageQueue w (b\<lparr>hasCharacteristic := True, isConnected := True\<rparr>))
      | ConnectFailed err assigned \<Rightarrow>
          (Inl err, b\<lparr> hasCharacteristic := (assigned \<or> hasCharacteristic b),
                       isConnected := False \<rparr>))"

definition onDisconnected :: "'m bluetooth_manager \<Rightarrow> 'm bluetooth_manager" where
  "onDisconnected b =
     b\<lparr> isConnected := False, hasCharacteristic := False,
        timers := timers b @ [(3000, AttemptReconnect)] \<rparr>"

definition attemptReconnect ::
  "connect_outcome \<Rightarrow> (nat \<Rightarrow> thrown option) \<Rightarrow> 'm bluetooth_manager \<Rightarrow> 'm bluetooth_manager" where
  "attemptReconnect c w b =
     (case connect c w b of
        (Inr ok, b') \<Rightarrow> b'
      | (Inl err, b') \<Rightarrow> b'\<lparr>timers := timers b' @ [(10000, AttemptReconnect)]\<rparr>)"

text \<open>
  A timer fires: it leaves the list and its callback runs. \<open>reconnects\<close> lets the timers
  fire one after the other, each reconnection attempt getting the next outcome.
\<close>

fun reconnects ::
  "connect_outcome list \<Rightarrow> (nat \<Rightarrow> thrown option) \<Rightarrow> 'm bluetooth_manager \<Rightarrow> 'm bluetooth_manager" where
  "reconnects [] w b = b"
| "reconnects (c # cs) w b =
     (case timers b of
        [] \<Rightarrow> b
      | t # ts \<Rightarrow> reconnects cs w (attemptReconnect c w (b\<lparr>timers := ts\<rparr>)))"

section \<open>Concrete situations\<close>

text \<open>
  One contact, a manager initialised with all its collaborators, and environments in which
  everything succeeds, the device is offline, the store rejects the write, the context
  collaborators fail, or every channel fails.
\<close>

definition alice :: contact where
  "alice = \<lparr>contact_id = ''c1'', contact_name = ''Alice'', contact_email = ''alice@example.org''\<rparr>"

definition ready :: system where
  "ready = init True True True constructor"

definition env_ok :: env where
  "env_ok =
     \<lparr> online = True, onlineAtLocation = True, locationSettlesFirst = False, dateNow = 1000, idTime = 1000, idRandom = ''k3x9q2'',
       getCurrentLocation = Inr (Some \<lparr>latitude = 52, longitude = 13, address = None\<rparr>),
       getAddressFromCoordinates = Inr ''Main St'',
       getLocationForEmergency = None,
       getSetting = Inr None, startRecording = None, recordingStartTime = 1001,
       getContacts = Inr [alice], dataTimestamp = 1002,
       broadcastEmergency = None, saveEmergencyAlert = None,
       sendEmergencyNotification = (\<lambda>i. None),
       sendEmergencyToAuthorities = None,
       fetchNotifyAuthorities = Inr (True, 200),
       storageEnv = \<lparr>requestFailure = None, generateId = ''gen1'', storageNow = 1003,
                     storageCreatedAt = 1003\<rparr>,
       audioIsRecording = True, stopRecording = Inr (Some 5000),
       recordedBlobType = ''audio/webm'', saveAudioRecording = None,
       cancelTimestamp = 2000, cancelDurationNow = 2000 \<rparr>"

definition env_offline :: env where
  "env_offline = env_ok\<lparr>online := False\<rparr>"

definition env_storage_fails :: env where
  "env_storage_fails =
     env_ok\<lparr>storageEnv := (storageEnv env_ok)\<lparr>requestFailure := Some (Error ''QuotaExceededError'')\<rparr>\<rparr>"

definition env_context_fails :: env where
  "env_context_fails =
     env_ok\<lparr> getCurrentLocation := Inl (Error ''Geolocation not available''),
             getLocationForEmergency := Some \<lparr>latitude = 48, longitude = 2, address = None\<rparr>,
             startRecording := Some (Error ''NotAllowedError''),
             getContacts := Inl (Error ''InvalidStateError'') \<rparr>"

definition env_channels_fail :: env where
  "env_channels_fail =
     env_ok\<lparr> broadcastEmergency := Some (Error ''GATT operation failed''),
             saveEmergencyAlert := Some (Error ''unavailable''),
             sendEmergencyToAuthorities := Some (Error ''Firebase not initialized'') \<rparr>"

definition env_notification_fails :: env where
  "env_notification_fails =
     env_ok\<lparr>sendEmergencyNotification := (\<lambda>i. Some (Error ''permission-denied''))\<rparr>"

definition env_fetch_refused :: env where
  "env_fetch_refused = env_ok\<lparr>fetchNotifyAuthorities := Inr (False, 503)\<rparr>"

text \<open>A manager initialised without a Firebase manager.\<close>

definition ready_without_firebase :: system where
  "ready_without_firebase = init True False True constructor"

definition data_alice :: emergency_data where
  "data_alice =
     \<lparr> ed_location = None, ed_audioRecording = None, ed_contacts = [alice],
       ed_timestamp = 1002, ed_emergencyId = Some ''emer_rs_k3x9q'' \<rparr>"

text \<open>The state after one successful activation.\<close>

definition active :: system where
  "active = snd (activateEmergency env_ok ready)"

text \<open>The Bluetooth manager as its constructor leaves it, and a connected one.\<close>

definition bluetooth_constructor :: "string bluetooth_manager" where
  "bluetooth_constructor =
     \<lparr> isConnected = False, hasCharacteristic = False, messageQueue = [], written = [],
       timers = [] \<rparr>"

definition bluetooth_connected :: "string bluetooth_manager" where
  "bluetooth_connected = bluetooth_constructor\<lparr>isConnected := True, hasCharacteristic := True\<rparr>"

definition connect_fails :: connect_outcome where
  "connect_fails = ConnectFailed (Error ''NetworkError'') False"

definition write_fails :: "nat \<Rightarrow> thrown option" where
  "write_fails i = Some (Error ''GATT operation failed'')"

definition write_ok :: "nat \<Rightarrow> thrown option" where
  "write_ok i = None"

text \<open>The state after an activation in which every channel failed.\<close>

definition undelivered :: system where
  "undelivered = snd (activateEmergency env_channels_fail ready)"

text \<open>The state after that emergency has been cancelled.\<close>

definition cancelled :: system where
  "cancelled = snd (cancelEmergency env_ok active)"

text \<open>A connected Bluetooth manager with two queued messages, and a device that rejects
  the first write only.\<close>

definition bluetooth_queued :: "string bluetooth_manager" where
  "bluetooth_queued = bluetooth_connected\<lparr>messageQueue := [''alert'', ''ack'']\<rparr>"

definition write_first_fails :: "nat \<Rightarrow> thrown option" where
  "write_first_fails i = (if i = 0 then Some (Error ''GATT operation failed'') else None)"

section \<open>Evaluation on the concrete situations\<close>

lemmas manager_defs = init_def constructor_def activateEmergency_def activation_row_def
  executeEmergencyProcedures_def getEmergencyLocation_def startEmergencyAudioRecording_def
  getTrustedContacts_def sendEmergencyAlerts_def sendBluetoothAlerts_def sendFirebaseAlerts_def
  notifyAuthorities_def initial_results_def count_sent_def count_failed_def saveEmergency_def
  saveEmergency_data_def store_add_def key_exists_def generateEmergencyId_def digit_def
  cancelEmergency_def stopAndSaveRecording_def saveCancellation_def cancellation_row_def
  sendCancellationAlerts_def store_get_def

lemmas situation_defs = alice_def ready_def env_ok_def env_offline_def env_storage_fails_def
  env_context_fails_def env_channels_fail_def data_alice_def env_notification_fails_def
  env_fetch_refused_def ready_without_firebase_def

lemmas bluetooth_defs = bluetooth_constructor_def bluetooth_connected_def bluetooth_queued_def
  connect_fails_def write_fails_def write_ok_def write_first_fails_def sendMessage_def
  processMessageQueue_def connect_def onDisconnected_def attemptReconnect_def

lemma ready_idle: "\<not> isEmergencyActive ready"
  by (simp add: ready_def init_def constructor_def)

lemma active_state:
  "active =
     \<lparr> hasBluetooth = True, hasFirebase = True, hasAudio = True,
       isEmergencyActive = True, currentEmergencyId = Some ''emer_rs_k3x9q'',
       emergencyStartTime = Some 1000, retryAttempts = 3, retryDelay = 5000,
       emergencies =
         [\<lparr> rec_id = ''emer_rs_k3x9q'', rec_originalId = None, rec_type = ''manual'',
            rec_data =
              Some \<lparr> ed_location =
                       Some \<lparr>latitude = 52, longitude = 13, address = Some ''Main St''\<rparr>,
                     ed_audioRecording = Some (Started 1001 120000),
                     ed_contacts = [alice], ed_timestamp = 1002,
                     ed_emergencyId = Some ''emer_rs_k3x9q'' \<rparr>,
            rec_alertResults =
              Some \<lparr> bluetooth = \<lparr>sent = 1, failed = 0, errors = []\<rparr>,
                     firebase = \<lparr>sent = 1, failed = 0, errors = []\<rparr>,
                     authorities = \<lparr>sent = 1, failed = 0, errors = []\<rparr>,
                     totalSent = 3, totalFailed = 0 \<rparr>,
            rec_timestamp = 1000, rec_duration = None, rec_status = Some Active,
            synced = False, createdAt = 1003 \<rparr>],
       audioRecordings = [],
       trace =
         [GetCurrentLocation, GetSetting ''audioRecording'', GetContacts,
          StartRecording, GetAddressFromCoordinates,
          BroadcastEmergency (Some ''emer_rs_k3x9q''),
          SaveEmergencyAlert (Some ''emer_rs_k3x9q''),
          SendEmergencyToAuthorities (Some ''emer_rs_k3x9q''),
          SendEmergencyNotification ''c1'' EmergencyAlert,
          SaveEmergency
            (activation_row ''emer_rs_k3x9q'' 1000
               \<lparr> ed_location =
                   Some \<lparr>latitude = 52, longitude = 13, address = Some ''Main St''\<rparr>,
                 ed_audioRecording = Some (Started 1001 120000),
                 ed_contacts = [alice], ed_timestamp = 1002,
                 ed_emergencyId = Some ''emer_rs_k3x9q'' \<rparr>
               \<lparr> bluetooth = \<lparr>sent = 1, failed = 0, errors = []\<rparr>,
                 firebase = \<lparr>sent = 1, failed = 0, errors = []\<rparr>,
                 authorities = \<lparr>sent = 1, failed = 0, errors = []\<rparr>,
                 totalSent = 3, totalFailed = 0 \<rparr>)] \<rparr>"
  by (simp add: active_def manager_defs situation_defs toString36.simps Let_def)

lemma cancelled_store:
  "emergencies cancelled =
     emergencies active @
     [\<lparr> rec_id = ''emer_rs_k3x9q-cancelled'', rec_originalId = Some ''emer_rs_k3x9q'',
        rec_type = ''cancellation'', rec_data = None, rec_alertResults = None,
        rec_timestamp = 2000, rec_duration = Some 1000, rec_status = Some Cancelled,
        synced = False, createdAt = 1003 \<rparr>]"
  by (simp add: cancelled_def active_state manager_defs situation_defs Let_def)

section \<open>The store keeps what it holds\<close>

lemma store_get_key: "store_get k db = Some r \<Longrightarrow> rec_id r = k \<and> r \<in> set db"
  by (induction db) (auto simp: store_get_def split: if_splits)

lemma store_get_insort:
  "rec_id x \<noteq> k \<Longrightarrow> store_get k (insort_key rec_id x db) = store_get k db"
  by (induction db) (auto simp: store_get_def)

lemma store_add_result:
  "store_add f x db = Inr db' \<Longrightarrow> db' = insort_key rec_id x db \<and> \<not> key_exists (rec_id x) db"
  by (auto simp: store_add_def split: option.splits if_splits)

text \<open>A successful \<open>add\<close> leaves every row that was stored under its key.\<close>

lemma store_add_get:
  assumes "store_add f x db = Inr db'" and "store_get k db = Some r"
  shows "store_get k db' = Some r"
proof -
  from assms(1) have db': "db' = insort_key rec_id x db" and new: "\<not> key_exists (rec_id x) db"
    using store_add_result by blast+
  from assms(2) have "rec_id r = k" and "r \<in> set db"
    using store_get_key by blast+
  then have "key_exists k db"
    by (auto simp: key_exists_def)
  with new have "rec_id x \<noteq> k" by auto
  then show ?thesis
    by (simp add: db' store_get_insort assms(2))
qed

lemma saveEmergency_get:
  "store_get k db = Some r \<Longrightarrow> store_get k (snd (saveEmergency se x db)) = Some r"
  by (auto simp: saveEmergency_def Let_def split: sum.splits dest: store_add_get)

lemma saveEmergency_store:
  "snd (saveEmergency se x db) = db \<or>
   snd (saveEmergency se x db) = insort_key rec_id (saveEmergency_data se x) db"
  by (auto simp: saveEmergency_def Let_def split: sum.splits dest: store_add_result)

lemma saveEmergency_sorted:
  "sorted (map rec_id db) \<Longrightarrow> sorted (map rec_id (snd (saveEmergency se x db)))"
  using saveEmergency_store [of se x db] by (auto simp: sorted_insort_key)

lemma saveEmergency_fails:
  "isl (fst (saveEmergency se x db)) =
     (requestFailure se \<noteq> None \<or> key_exists (if rec_id x = [] then generateId se else rec_id x) db)"
  by (auto simp: saveEmergency_def saveEmergency_data_def store_add_def Let_def
      split: sum.splits option.splits if_splits)

lemma generateEmergencyId_nonempty: "generateEmergencyId t r \<noteq> []"
  by (simp add: generateEmergencyId_def)

section \<open>Pending emergencies\<close>

lemma index_getAll_boolean: "index_getAll keyPath (IdbBoolean q) db = Inl (Error ''DataError'')"
  by (simp add: index_getAll_def)

lemma getPendingEmergencies_empty: "getPendingEmergencies failure db = []"
  by (simp add: getPendingEmergencies_def index_getAll_boolean split: option.splits)

text \<open>
  Claim C6, where the code fails it. In \<open>undelivered\<close> every channel of the emergency
  failed and its row is stored with \<open>synced = false\<close> and three failures: it is what a
  retry would have to pick up. \<open>getPendingEmergencies\<close> returns no row: the query
  \<open>false\<close> is not a key, \<open>getAll\<close> throws, and the \<open>catch\<close> returns the empty list, as
  it does for every store.
\<close>

theorem pending_of_undelivered_is_empty:
  "map (\<lambda>r. (rec_id r, synced r, map_option totalFailed (rec_alertResults r)))
       (emergencies undelivered)
     = [(''emer_rs_k3x9q'', False, Some 3)]
   \<and> getPendingEmergencies None (emergencies undelivered) = []"
  by (simp add: getPendingEmergencies_empty undelivered_def manager_defs situation_defs
      toString36.simps Let_def)

section \<open>Dispatch\<close>

subsection \<open>What each alert method calls\<close>

lemma bluetooth_events: "snd (sendBluetoothAlerts e d r) = [BroadcastEmergency (ed_emergencyId d)]"
  by (simp add: sendBluetoothAlerts_def split: option.splits)

lemma firebase_events:
  "snd (sendFirebaseAlerts e d r) =
     SaveEmergencyAlert (ed_emergencyId d) #
     (case saveEmergencyAlert e of
        None \<Rightarrow> map (\<lambda>c. SendEmergencyNotification (contact_id c) EmergencyAlert) (ed_contacts d)
      | Some err \<Rightarrow> [])"
  by (simp add: sendFirebaseAlerts_def split: option.splits)

lemma authorities_events:
  "snd (notifyAuthorities e s d r) =
     [if hasFirebase s then SendEmergencyToAuthorities (ed_emergencyId d)
      else FetchNotifyAuthorities (ed_emergencyId d)]"
  by (simp add: notifyAuthorities_def split: option.splits sum.splits prod.splits)

lemma dispatch_events:
  "snd (sendEmergencyAlerts e s d) =
     (if hasBluetooth s \<and> ed_contacts d \<noteq> [] then [BroadcastEmergency (ed_emergencyId d)] else []) @
     (if hasFirebase s \<and> online e \<and> ed_contacts d \<noteq> []
      then [SaveEmergencyAlert (ed_emergencyId d)] else []) @
     (if online e
      then [if hasFirebase s then SendEmergencyToAuthorities (ed_emergencyId d)
            else FetchNotifyAuthorities (ed_emergencyId d)]
      else []) @
     (if hasFirebase s \<and> online e \<and> ed_contacts d \<noteq> [] \<and> saveEmergencyAlert e = None
      then map (\<lambda>c. SendEmergencyNotification (contact_id c) EmergencyAlert) (ed_contacts d)
      else [])"
  by (simp add: sendEmergencyAlerts_def case_prod_beta bluetooth_events firebase_events
      authorities_events split: option.splits)

lemma dispatch_events_send:
  "ev \<in> set (snd (sendEmergencyAlerts e s d)) \<Longrightarrow> is_channel_send ev \<and> \<not> is_journal_write ev"
  by (auto simp: dispatch_events split: if_splits)

subsection \<open>Each alert method writes its own component\<close>

lemma bluetooth_frame:
  "firebase (fst (sendBluetoothAlerts e d r)) = firebase r \<and>
   authorities (fst (sendBluetoothAlerts e d r)) = authorities r"
  by (simp add: sendBluetoothAlerts_def split: option.splits)

lemma firebase_frame:
  "bluetooth (fst (sendFirebaseAlerts e d r)) = bluetooth r \<and>
   authorities (fst (sendFirebaseAlerts e d r)) = authorities r"
  by (simp add: sendFirebaseAlerts_def split: option.splits)

lemma authorities_frame:
  "bluetooth (fst (notifyAuthorities e s d r)) = bluetooth r \<and>
   firebase (fst (notifyAuthorities e s d r)) = firebase r"
  by (simp add: notifyAuthorities_def split: option.splits sum.splits prod.splits)

lemma bluetooth_own:
  "bluetooth (fst (sendBluetoothAlerts e d r)) =
     (case broadcastEmergency e of
        None \<Rightarrow> count_sent (bluetooth r)
      | Some err \<Rightarrow> count_failed (message err) (bluetooth r))"
  by (simp add: sendBluetoothAlerts_def split: option.splits)

lemma firebase_depends:
  "firebase r = firebase r' \<Longrightarrow>
   firebase (fst (sendFirebaseAlerts e d r)) = firebase (fst (sendFirebaseAlerts e d r'))"
  by (simp add: sendFirebaseAlerts_def split: option.splits)

lemma authorities_depends:
  "authorities r = authorities r' \<Longrightarrow>
   authorities (fst (notifyAuthorities e s d r)) = authorities (fst (notifyAuthorities e s d r'))"
  by (simp add: notifyAuthorities_def split: option.splits sum.splits prod.splits)

lemma dispatch_bluetooth:
  "bluetooth (fst (sendEmergencyAlerts e s d)) =
     (if hasBluetooth s \<and> ed_contacts d \<noteq> []
      then bluetooth (fst (sendBluetoothAlerts e d initial_results))
      else bluetooth initial_results)"
  by (simp add: sendEmergencyAlerts_def case_prod_beta firebase_frame authorities_frame)

lemma dispatch_firebase:
  "firebase (fst (sendEmergencyAlerts e s d)) =
     (if hasFirebase s \<and> online e \<and> ed_contacts d \<noteq> []
      then firebase (fst (sendFirebaseAlerts e d initial_results))
      else firebase initial_results)"
proof -
  define r1 where "r1 = fst (if hasBluetooth s \<and> 0 < length (ed_contacts d)
                             then sendBluetoothAlerts e d initial_results
                             else (initial_results, []))"
  have f1: "firebase r1 = firebase initial_results"
    by (simp add: r1_def bluetooth_frame)
  have "firebase (fst (sendEmergencyAlerts e s d)) =
          (if hasFirebase s \<and> online e \<and> ed_contacts d \<noteq> []
           then firebase (fst (sendFirebaseAlerts e d r1)) else firebase r1)"
    by (simp add: sendEmergencyAlerts_def case_prod_beta r1_def authorities_frame)
  with firebase_depends [OF f1] f1 show ?thesis by simp
qed

lemma dispatch_authorities:
  "authorities (fst (sendEmergencyAlerts e s d)) =
     (if online e then authorities (fst (notifyAuthorities e s d initial_results))
      else authorities initial_results)"
proof -
  define r1 where "r1 = fst (if hasBluetooth s \<and> 0 < length (ed_contacts d)
                             then sendBluetoothAlerts e d initial_results
                             else (initial_results, []))"
  define r2 where "r2 = fst (if hasFirebase s \<and> online e \<and> 0 < length (ed_contacts d)
                             then sendFirebaseAlerts e d r1 else (r1, []))"
  have a1: "authorities r1 = authorities initial_results"
    by (simp add: r1_def bluetooth_frame)
  have a2: "authorities r2 = authorities initial_results"
    by (simp add: r2_def firebase_frame a1)
  have "authorities (fst (sendEmergencyAlerts e s d)) =
          (if online e then authorities (fst (notifyAuthorities e s d r2)) else authorities r2)"
    by (simp add: sendEmergencyAlerts_def case_prod_beta r1_def r2_def)
  with authorities_depends [OF a2] a2 show ?thesis by simp
qed

lemma dispatch_ignores_manager_fields:
  "sendEmergencyAlerts e
     (s\<lparr>isEmergencyActive := a, emergencyStartTime := t, currentEmergencyId := c\<rparr>) d
   = sendEmergencyAlerts e s d"
  by (simp add: sendEmergencyAlerts_def notifyAuthorities_def)

lemma dispatch_ignores_retry:
  "sendEmergencyAlerts e (s\<lparr>retryAttempts := n, retryDelay := m\<rparr>) d = sendEmergencyAlerts e s d"
  by (simp add: sendEmergencyAlerts_def notifyAuthorities_def)

subsection \<open>Which channels are attempted\<close>

text \<open>
  Claim C3, as the code has it. \<open>sendEmergencyAlerts\<close> attempts each of its three channels
  exactly when the guard of that channel holds, whatever the other channels do: Bluetooth
  when a Bluetooth manager is set and there is a contact, Firebase when a Firebase manager
  is set, the device is online and there is a contact, the authorities when the device is
  online. A channel whose guard fails is skipped and keeps its initial counts. The
  component that an attempted channel writes is the one it would write on a fresh
  \<open>results\<close> object: no channel's outcome changes what another records.
\<close>

theorem dispatch_attempts_guarded_channels:
  "(BroadcastEmergency (ed_emergencyId d) \<in> set (snd (sendEmergencyAlerts e s d)))
     = (hasBluetooth s \<and> ed_contacts d \<noteq> [])
   \<and> (SaveEmergencyAlert (ed_emergencyId d) \<in> set (snd (sendEmergencyAlerts e s d)))
     = (hasFirebase s \<and> online e \<and> ed_contacts d \<noteq> [])
   \<and> (SendEmergencyToAuthorities (ed_emergencyId d) \<in> set (snd (sendEmergencyAlerts e s d))
       \<or> FetchNotifyAuthorities (ed_emergencyId d) \<in> set (snd (sendEmergencyAlerts e s d)))
     = online e
   \<and> bluetooth (fst (sendEmergencyAlerts e s d)) =
       (if hasBluetooth s \<and> ed_contacts d \<noteq> []
        then bluetooth (fst (sendBluetoothAlerts e d initial_results))
        else bluetooth initial_results)
   \<and> firebase (fst (sendEmergencyAlerts e s d)) =
       (if hasFirebase s \<and> online e \<and> ed_contacts d \<noteq> []
        then firebase (fst (sendFirebaseAlerts e d initial_results))
        else firebase initial_results)
   \<and> authorities (fst (sendEmergencyAlerts e s d)) =
       (if online e then authorities (fst (notifyAuthorities e s d initial_results))
        else authorities initial_results)"
proof (intro conjI)
  show "(BroadcastEmergency (ed_emergencyId d) \<in> set (snd (sendEmergencyAlerts e s d)))
          = (hasBluetooth s \<and> ed_contacts d \<noteq> [])"
    by (auto simp: dispatch_events split: if_splits)
  show "(SaveEmergencyAlert (ed_emergencyId d) \<in> set (snd (sendEmergencyAlerts e s d)))
          = (hasFirebase s \<and> online e \<and> ed_contacts d \<noteq> [])"
    by (auto simp: dispatch_events split: if_splits)
  show "(SendEmergencyToAuthorities (ed_emergencyId d) \<in> set (snd (sendEmergencyAlerts e s d))
          \<or> FetchNotifyAuthorities (ed_emergencyId d) \<in> set (snd (sendEmergencyAlerts e s d)))
          = online e"
    by (auto simp: dispatch_events split: if_splits)
qed (rule dispatch_bluetooth dispatch_firebase dispatch_authorities)+

theorem dispatch_attempts_guarded_channels_witness:
  "BroadcastEmergency (Some ''emer_rs_k3x9q'') \<in> set (snd (sendEmergencyAlerts env_ok ready data_alice))
   \<and> SaveEmergencyAlert (Some ''emer_rs_k3x9q'') \<in> set (snd (sendEmergencyAlerts env_ok ready data_alice))
   \<and> (SendEmergencyToAuthorities (Some ''emer_rs_k3x9q'')
         \<in> set (snd (sendEmergencyAlerts env_ok ready data_alice))
       \<or> FetchNotifyAuthorities (Some ''emer_rs_k3x9q'')
         \<in> set (snd (sendEmergencyAlerts env_ok ready data_alice)))
   \<and> bluetooth (fst (sendEmergencyAlerts env_ok ready data_alice))
       = \<lparr>sent = 1, failed = 0, errors = []\<rparr>
   \<and> firebase (fst (sendEmergencyAlerts env_ok ready data_alice))
       = \<lparr>sent = 1, failed = 0, errors = []\<rparr>
   \<and> authorities (fst (sendEmergencyAlerts env_ok ready data_alice))
       = \<lparr>sent = 1, failed = 0, errors = []\<rparr>"
  using dispatch_attempts_guarded_channels [of data_alice env_ok ready]
  by (simp add: situation_defs init_def constructor_def initial_results_def count_sent_def
      sendBluetoothAlerts_def sendFirebaseAlerts_def notifyAuthorities_def)

text \<open>
  Offline, with a Bluetooth manager, a Firebase manager and one contact: of the three
  channels only Bluetooth is called. Firebase and the authorities are skipped.
\<close>

theorem offline_skips_channels_counterexample:
  "snd (sendEmergencyAlerts env_offline ready data_alice)
     = [BroadcastEmergency (Some ''emer_rs_k3x9q'')]"
  by (simp add: manager_defs situation_defs)

subsection \<open>What the counts count\<close>

lemma notifyContacts_sent:
  "sent (notifyContacts f i cs r) =
     sent r + length (filter (\<lambda>j. f j = None) [i..<i + length cs])"
proof (induction cs arbitrary: i r)
  case Nil
  then show ?case by simp
next
  case (Cons c cs)
  have "[i..<i + length (c # cs)] = i # [Suc i..<Suc i + length cs]"
    by (subst upt_conv_Cons) simp_all
  then show ?case
    by (simp add: Cons.IH count_sent_def count_failed_def split: option.splits)
qed

lemma notifyContacts_failed:
  "failed (notifyContacts f i cs r) =
     failed r + length (filter (\<lambda>j. f j \<noteq> None) [i..<i + length cs])"
proof (induction cs arbitrary: i r)
  case Nil
  then show ?case by simp
next
  case (Cons c cs)
  have "[i..<i + length (c # cs)] = i # [Suc i..<Suc i + length cs]"
    by (subst upt_conv_Cons) simp_all
  then show ?case
    by (simp add: Cons.IH count_sent_def count_failed_def split: option.splits)
qed

lemma notifyContacts_errors:
  "errors (notifyContacts f i cs r) =
     errors r @
     concat (map (\<lambda>(j, c). case f j of None \<Rightarrow> []
                            | Some err \<Rightarrow> [contact_email c @ '': '' @ message err])
               (enumerate i cs))"
  by (induction cs arbitrary: i r)
     (simp_all add: count_sent_def count_failed_def split: option.splits)

lemma dispatch_bluetooth_result:
  "bluetooth (fst (sendEmergencyAlerts e s d)) =
     (if hasBluetooth s \<and> ed_contacts d \<noteq> [] then
        (case broadcastEmergency e of
           None \<Rightarrow> \<lparr>sent = 1, failed = 0, errors = []\<rparr>
         | Some err \<Rightarrow> \<lparr>sent = 0, failed = 1, errors = [message err]\<rparr>)
      else \<lparr>sent = 0, failed = 0, errors = []\<rparr>)"
  by (simp add: dispatch_bluetooth bluetooth_own initial_results_def count_sent_def
      count_failed_def split: option.splits)

lemma dispatch_firebase_result:
  "firebase (fst (sendEmergencyAlerts e s d)) =
     (if hasFirebase s \<and> online e \<and> ed_contacts d \<noteq> [] then
        (case saveEmergencyAlert e of
           Some err \<Rightarrow> \<lparr>sent = 0, failed = 1, errors = [message err]\<rparr>
         | None \<Rightarrow>
             notifyContacts (sendEmergencyNotification e) 0 (ed_contacts d)
               \<lparr>sent = 0, failed = 0, errors = []\<rparr>)
      else \<lparr>sent = 0, failed = 0, errors = []\<rparr>)"
  by (simp add: dispatch_firebase sendFirebaseAlerts_def initial_results_def count_failed_def
      split: option.splits)

lemma dispatch_authorities_result:
  "authorities (fst (sendEmergencyAlerts e s d)) =
     (if online e then
        (if hasFirebase s then
           (case sendEmergencyToAuthorities e of
              None \<Rightarrow> \<lparr>sent = 1, failed = 0, errors = []\<rparr>
            | Some err \<Rightarrow> \<lparr>sent = 0, failed = 1, errors = [message err]\<rparr>)
         else
           (case fetchNotifyAuthorities e of
              Inl err \<Rightarrow> \<lparr>sent = 0, failed = 1, errors = [message err]\<rparr>
            | Inr (ok, status) \<Rightarrow>
                if ok then \<lparr>sent = 1, failed = 0, errors = []\<rparr>
                else \<lparr>sent = 0, failed = 1,
                       errors = [''Authority notification failed: '' @ toString10 status]\<rparr>))
      else \<lparr>sent = 0, failed = 0, errors = []\<rparr>)"
  by (simp add: dispatch_authorities notifyAuthorities_def initial_results_def count_sent_def
      count_failed_def split: option.splits sum.splits prod.splits)

lemma dispatch_totals:
  "totalSent (fst (sendEmergencyAlerts e s d)) =
     sent (bluetooth (fst (sendEmergencyAlerts e s d)))
     + sent (firebase (fst (sendEmergencyAlerts e s d)))
     + sent (authorities (fst (sendEmergencyAlerts e s d)))
   \<and> totalFailed (fst (sendEmergencyAlerts e s d)) =
     failed (bluetooth (fst (sendEmergencyAlerts e s d)))
     + failed (firebase (fst (sendEmergencyAlerts e s d)))
     + failed (authorities (fst (sendEmergencyAlerts e s d)))"
  by (simp add: sendEmergencyAlerts_def case_prod_beta)

section \<open>Activation\<close>

subsection \<open>Context gathering\<close>

lemma location_events:
  "ev \<in> set (snd (getEmergencyLocation e)) \<Longrightarrow> \<not> is_journal_write ev \<and> \<not> is_channel_send ev"
  by (auto simp: getEmergencyLocation_def split: sum.splits option.splits if_splits)

lemma recording_events:
  "ev \<in> set (snd (startEmergencyAudioRecording e)) \<Longrightarrow>
   \<not> is_journal_write ev \<and> \<not> is_channel_send ev"
  by (auto simp: startEmergencyAudioRecording_def split: sum.splits option.splits bool.splits)

lemma contacts_events:
  "ev \<in> set (snd (getTrustedContacts e)) \<Longrightarrow> \<not> is_journal_write ev \<and> \<not> is_channel_send ev"
  by (auto simp: getTrustedContacts_def split: sum.splits)

lemma context_events_set:
  "set (snd (executeEmergencyProcedures e s)) =
     set (snd (getEmergencyLocation e)) \<union> set (snd (startEmergencyAudioRecording e))
     \<union> set (snd (getTrustedContacts e))"
proof -
  have td: "set (take 1 xs) \<union> set (drop 1 xs) = set xs" for xs :: "event list"
    by (metis append_take_drop_id set_append)
  have "set (snd (executeEmergencyProcedures e s)) =
          (set (take 1 (snd (getEmergencyLocation e))) \<union> set (drop 1 (snd (getEmergencyLocation e))))
          \<union> (set (take 1 (snd (startEmergencyAudioRecording e)))
              \<union> set (drop 1 (snd (startEmergencyAudioRecording e))))
          \<union> (set (take 1 (snd (getTrustedContacts e))) \<union> set (drop 1 (snd (getTrustedContacts e))))"
    by (auto simp: executeEmergencyProcedures_def case_prod_beta)
  then show ?thesis
    by (simp only: td)
qed

lemma context_events:
  "ev \<in> set (snd (executeEmergencyProcedures e s)) \<Longrightarrow>
   \<not> is_journal_write ev \<and> \<not> is_channel_send ev"
  unfolding context_events_set using location_events recording_events contacts_events by blast

lemma context_location_failed:
  "getCurrentLocation e = Inl err \<or> getCurrentLocation e = Inr None \<Longrightarrow>
   ed_location (fst (executeEmergencyProcedures e s)) = getLocationForEmergency e"
  by (auto simp: executeEmergencyProcedures_def case_prod_beta getEmergencyLocation_def)

lemma context_recording_failed:
  "getSetting e = Inr v \<Longrightarrow> v \<noteq> Some False \<Longrightarrow> startRecording e = Some err \<Longrightarrow>
   ed_audioRecording (fst (executeEmergencyProcedures e s)) = Some (NotStarted (message err))"
  by (auto simp: executeEmergencyProcedures_def case_prod_beta startEmergencyAudioRecording_def
      split: option.splits bool.splits)

lemma context_contacts_failed:
  "getContacts e = Inl err \<Longrightarrow> ed_contacts (fst (executeEmergencyProcedures e s)) = []"
  by (simp add: executeEmergencyProcedures_def case_prod_beta getTrustedContacts_def)

subsection \<open>The call as a whole\<close>

lemma activate_idle_effects:
  assumes "\<not> isEmergencyActive s"
  shows "let eid = generateEmergencyId (idTime e) (idRandom e);
             s1 = s\<lparr> isEmergencyActive := True, emergencyStartTime := Some (dateNow e),
                      currentEmergencyId := Some eid \<rparr>;
             d = fst (executeEmergencyProcedures e s1);
             row = activation_row eid (dateNow e) d (fst (sendEmergencyAlerts e s d))
         in trace (snd (activateEmergency e s)) =
              trace s @ snd (executeEmergencyProcedures e s1) @ snd (sendEmergencyAlerts e s d)
              @ [SaveEmergency row]
          \<and> emergencies (snd (activateEmergency e s)) =
              snd (saveEmergency (storageEnv e) row (emergencies s))"
  using assms
  by (auto simp: activateEmergency_def case_prod_beta Let_def dispatch_ignores_manager_fields
      split: sum.splits)

lemma activate_idle_fails:
  assumes "\<not> isEmergencyActive s"
  shows "isl (fst (activateEmergency e s)) =
           (requestFailure (storageEnv e) \<noteq> None \<or>
            key_exists (generateEmergencyId (idTime e) (idRandom e)) (emergencies s))"
proof -
  let ?eid = "generateEmergencyId (idTime e) (idRandom e)"
  let ?s1 = "s\<lparr> isEmergencyActive := True, emergencyStartTime := Some (dateNow e),
                 currentEmergencyId := Some ?eid \<rparr>"
  let ?d = "fst (executeEmergencyProcedures e ?s1)"
  have "isl (fst (activateEmergency e s)) =
          isl (fst (saveEmergency (storageEnv e)
                 (activation_row ?eid (dateNow e) ?d (fst (sendEmergencyAlerts e s ?d)))
                 (emergencies s)))"
    using assms
    by (simp add: activateEmergency_def case_prod_beta Let_def dispatch_ignores_manager_fields
        split: sum.splits)
  then show ?thesis
    by (simp add: saveEmergency_fails activation_row_def generateEmergencyId_nonempty)
qed

lemma activate_idle_not_undefined:
  "\<not> isEmergencyActive s \<Longrightarrow> fst (activateEmergency e s) \<noteq> Inr None"
  by (simp add: activateEmergency_def case_prod_beta Let_def split: sum.splits)

lemma activate_idle_completes:
  assumes "\<not> isEmergencyActive s"
  shows "(\<exists>sm. fst (activateEmergency e s) = Inr (Some sm)) =
           (requestFailure (storageEnv e) = None \<and>
            \<not> key_exists (generateEmergencyId (idTime e) (idRandom e)) (emergencies s))"
proof -
  have "(\<exists>sm. fst (activateEmergency e s) = Inr (Some sm)) = (\<not> isl (fst (activateEmergency e s)))"
    using activate_idle_not_undefined [OF assms, of e]
    by (cases "fst (activateEmergency e s)") auto
  then show ?thesis
    by (simp add: activate_idle_fails [OF assms])
qed

lemma activate_failed_flag:
  "fst (activateEmergency e s) = Inl err \<Longrightarrow> \<not> isEmergencyActive (snd (activateEmergency e s))"
  by (cases "isEmergencyActive s")
     (auto simp: activateEmergency_def case_prod_beta Let_def split: sum.splits)

text \<open>
  Claim C1, as the code has it. In every state in which an emergency is already active,
  \<open>activateEmergency\<close> returns without a value and without an error (the source logs a
  warning and returns): the whole state, with the active emergency, the store and the log
  of collaborator calls, is the state before the call, so nothing is called and nothing is
  queued.
\<close>

theorem activate_while_active_is_noop:
  assumes "isEmergencyActive s"
  shows "activateEmergency e s = (Inr None, s)"
  using assms by (simp add: activateEmergency_def)

theorem activate_while_active_is_noop_witness:
  "isEmergencyActive active \<and> activateEmergency env_ok active = (Inr None, active)"
proof -
  have h: "isEmergencyActive active"
    by (simp add: active_state)
  show ?thesis
    using h activate_while_active_is_noop [OF h, of env_ok] by simp
qed

text \<open>
  A second activation while the first emergency is active is not rejected with an error:
  the call returns normally, with no value.
\<close>

theorem second_activation_returns_counterexample:
  "isEmergencyActive active \<and> fst (activateEmergency env_ok active) = Inr None"
  by (simp add: active_state activateEmergency_def)

text \<open>
  Claim C2, as the code has it. \<open>activateEmergency\<close> writes the emergency record after the
  dispatch, not before it. In every execution that starts from a state with no active
  emergency, the calls are, in this order: the calls of \<open>executeEmergencyProcedures\<close>
  (none of them a channel send or a write of the store), then the channel sends of
  \<open>sendEmergencyAlerts\<close> on the context just gathered (none of them a write of the
  store), then one \<open>saveEmergency\<close>. The record handed to it has status \<open>Active\<close> and
  holds that context and the results of that dispatch, and the store afterwards is what
  this one \<open>saveEmergency\<close> leaves.
\<close>

theorem record_saved_after_dispatch:
  assumes "\<not> isEmergencyActive s"
  shows "let eid = generateEmergencyId (idTime e) (idRandom e);
             s1 = s\<lparr> isEmergencyActive := True, emergencyStartTime := Some (dateNow e),
                      currentEmergencyId := Some eid \<rparr>;
             d = fst (executeEmergencyProcedures e s1);
             r = fst (sendEmergencyAlerts e s d);
             row = activation_row eid (dateNow e) d r
         in trace (snd (activateEmergency e s)) =
              trace s @ snd (executeEmergencyProcedures e s1) @ snd (sendEmergencyAlerts e s d)
              @ [SaveEmergency row]
          \<and> (\<forall>ev\<in>set (snd (executeEmergencyProcedures e s1)).
                \<not> is_channel_send ev \<and> \<not> is_journal_write ev)
          \<and> (\<forall>ev\<in>set (snd (sendEmergencyAlerts e s d)).
                is_channel_send ev \<and> \<not> is_journal_write ev)
          \<and> rec_status row = Some Active
          \<and> rec_data row = Some d
          \<and> rec_alertResults row = Some r
          \<and> emergencies (snd (activateEmergency e s)) =
              snd (saveEmergency (storageEnv e) row (emergencies s))"
proof -
  let ?eid = "generateEmergencyId (idTime e) (idRandom e)"
  let ?s1 = "s\<lparr> isEmergencyActive := True, emergencyStartTime := Some (dateNow e),
                 currentEmergencyId := Some ?eid \<rparr>"
  let ?d = "fst (executeEmergencyProcedures e ?s1)"
  let ?r = "fst (sendEmergencyAlerts e s ?d)"
  let ?row = "activation_row ?eid (dateNow e) ?d ?r"
  have tr: "trace (snd (activateEmergency e s)) =
              trace s @ snd (executeEmergencyProcedures e ?s1) @ snd (sendEmergencyAlerts e s ?d)
              @ [SaveEmergency ?row]"
    and db: "emergencies (snd (activateEmergency e s)) =
               snd (saveEmergency (storageEnv e) ?row (emergencies s))"
    using activate_idle_effects [OF assms, of e] by (simp_all add: Let_def)
  have ctx: "\<forall>ev\<in>set (snd (executeEmergencyProcedures e ?s1)).
               \<not> is_channel_send ev \<and> \<not> is_journal_write ev"
    using context_events by blast
  have snd: "\<forall>ev\<in>set (snd (sendEmergencyAlerts e s ?d)).
               is_channel_send ev \<and> \<not> is_journal_write ev"
    using dispatch_events_send by blast
  have row: "rec_status ?row = Some Active \<and> rec_data ?row = Some ?d
             \<and> rec_alertResults ?row = Some ?r"
    by (simp add: activation_row_def)
  show ?thesis
    unfolding Let_def using tr db ctx snd row by blast
qed

text \<open>
  The activation that leads from \<open>ready\<close> to \<open>active\<close>: five context calls, four channel
  sends, then the write.
\<close>

theorem record_saved_after_dispatch_witness:
  "\<not> isEmergencyActive ready
   \<and> trace (snd (activateEmergency env_ok ready)) =
       [GetCurrentLocation, GetSetting ''audioRecording'', GetContacts,
        StartRecording, GetAddressFromCoordinates,
        BroadcastEmergency (Some ''emer_rs_k3x9q''),
        SaveEmergencyAlert (Some ''emer_rs_k3x9q''),
        SendEmergencyToAuthorities (Some ''emer_rs_k3x9q''),
        SendEmergencyNotification ''c1'' EmergencyAlert,
        SaveEmergency (hd (emergencies active)\<lparr>createdAt := 0\<rparr>)]
   \<and> rec_status (hd (emergencies active)) = Some Active
   \<and> map_option totalSent (rec_alertResults (hd (emergencies active))) = Some 3"
proof -
  let ?s1 = "ready\<lparr> isEmergencyActive := True, emergencyStartTime := Some (dateNow env_ok),
                     currentEmergencyId :=
                       Some (generateEmergencyId (idTime env_ok) (idRandom env_ok)) \<rparr>"
  let ?d = "fst (executeEmergencyProcedures env_ok ?s1)"
  have a: "trace (snd (activateEmergency env_ok ready)) =
             trace ready @ snd (executeEmergencyProcedures env_ok ?s1)
             @ snd (sendEmergencyAlerts env_ok ready ?d)
             @ [SaveEmergency
                  (activation_row (generateEmergencyId (idTime env_ok) (idRandom env_ok))
                     (dateNow env_ok) ?d (fst (sendEmergencyAlerts env_ok ready ?d)))]"
    (is "_ = ?rhs")
    using record_saved_after_dispatch [OF ready_idle, of env_ok] by (simp add: Let_def)
  have b: "?rhs =
       [GetCurrentLocation, GetSetting ''audioRecording'', GetContacts,
        StartRecording, GetAddressFromCoordinates,
        BroadcastEmergency (Some ''emer_rs_k3x9q''),
        SaveEmergencyAlert (Some ''emer_rs_k3x9q''),
        SendEmergencyToAuthorities (Some ''emer_rs_k3x9q''),
        SendEmergencyNotification ''c1'' EmergencyAlert,
        SaveEmergency (hd (emergencies active)\<lparr>createdAt := 0\<rparr>)]"
    by (simp add: active_state manager_defs situation_defs toString36.simps Let_def)
  have c: "rec_status (hd (emergencies active)) = Some Active
           \<and> map_option totalSent (rec_alertResults (hd (emergencies active))) = Some 3"
    by (simp add: active_state)
  show ?thesis
    using ready_idle a b c by simp
qed

text \<open>
  In the log of the activation that leads from \<open>ready\<close> (whose log is empty) to
  \<open>active\<close>, a channel send stands before the first write of the store.
\<close>

theorem send_before_first_write_counterexample:
  "list_ex is_channel_send (takeWhile (\<lambda>ev. \<not> is_journal_write ev) (trace active))"
  by (simp add: active_state)

text \<open>
  Claim C8, as the code has it. Starting from a state with no active emergency,
  \<open>activateEmergency\<close> returns its summary exactly when the store accepts the record:
  no answer of the location provider, the recorder or the contact store makes it fail.
  In the context that \<open>executeEmergencyProcedures\<close> builds, a location provider that
  fails or finds nothing contributes the last known location (\<open>null\<close> only when there is
  none), a recorder that fails to start contributes the object
  \<open>{started: false, error}\<close>, not \<open>null\<close>, and a contact store that fails contributes the
  empty list.
\<close>

theorem context_failures_do_not_abort:
  assumes "\<not> isEmergencyActive s"
  shows "(\<exists>sm. fst (activateEmergency e s) = Inr (Some sm)) =
           (requestFailure (storageEnv e) = None \<and>
            \<not> key_exists (generateEmergencyId (idTime e) (idRandom e)) (emergencies s))
       \<and> (getCurrentLocation e = Inl err1 \<or> getCurrentLocation e = Inr None \<longrightarrow>
            ed_location (fst (executeEmergencyProcedures e s')) = getLocationForEmergency e)
       \<and> (getSetting e = Inr v \<and> v \<noteq> Some False \<and> startRecording e = Some err2 \<longrightarrow>
            ed_audioRecording (fst (executeEmergencyProcedures e s'))
              = Some (NotStarted (message err2)))
       \<and> (getContacts e = Inl err3 \<longrightarrow> ed_contacts (fst (executeEmergencyProcedures e s')) = [])"
  using activate_idle_completes [OF assms, of e]
    context_location_failed [of e err1 s'] context_recording_failed [of e v err2 s']
    context_contacts_failed [of e err3 s']
  by blast

theorem context_failures_do_not_abort_witness:
  "\<not> isEmergencyActive ready
   \<and> (\<exists>sm. fst (activateEmergency env_context_fails ready) = Inr (Some sm))
   \<and> ed_location (fst (executeEmergencyProcedures env_context_fails ready))
       = Some \<lparr>latitude = 48, longitude = 2, address = None\<rparr>
   \<and> ed_audioRecording (fst (executeEmergencyProcedures env_context_fails ready))
       = Some (NotStarted ''NotAllowedError'')
   \<and> ed_contacts (fst (executeEmergencyProcedures env_context_fails ready)) = []"
  using ready_idle
    context_failures_do_not_abort [OF ready_idle, of env_context_fails
      "Error ''Geolocation not available''" ready None "Error ''NotAllowedError''"
      "Error ''InvalidStateError''"]
  by (simp add: situation_defs init_def constructor_def key_exists_def)

text \<open>
  The recorder is refused the microphone and the location provider fails: the context
  holds a recording object and the last known location, neither of them \<open>null\<close>.
\<close>

theorem failed_recorder_is_not_null_counterexample:
  "startRecording env_context_fails = Some (Error ''NotAllowedError'')
   \<and> ed_audioRecording (fst (executeEmergencyProcedures env_context_fails ready))
       = Some (NotStarted ''NotAllowedError'')
   \<and> getCurrentLocation env_context_fails = Inl (Error ''Geolocation not available'')
   \<and> ed_location (fst (executeEmergencyProcedures env_context_fails ready))
       = Some \<lparr>latitude = 48, longitude = 2, address = None\<rparr>"
  by (simp add: manager_defs situation_defs)

text \<open>
  Claim C9. When \<open>activateEmergency\<close> fails with an error, the state it leaves has
  \<open>isEmergencyActive\<close> reset to \<open>false\<close>, and a following call of \<open>activateEmergency\<close>, in
  any environment, does not take the already-active return (which yields no value): it
  runs the activation and ends with a summary or an error of its own.
\<close>

theorem failed_activation_resets_flag:
  assumes "fst (activateEmergency e s) = Inl err"
  shows "\<not> isEmergencyActive (snd (activateEmergency e s))
       \<and> fst (activateEmergency e' (snd (activateEmergency e s))) \<noteq> Inr None"
  using assms activate_failed_flag activate_idle_not_undefined by blast

theorem failed_activation_resets_flag_witness:
  "fst (activateEmergency env_storage_fails ready) = Inl (Error ''QuotaExceededError'')
   \<and> \<not> isEmergencyActive (snd (activateEmergency env_storage_fails ready))
   \<and> fst (activateEmergency env_ok (snd (activateEmergency env_storage_fails ready))) \<noteq> Inr None"
proof -
  have h: "fst (activateEmergency env_storage_fails ready) = Inl (Error ''QuotaExceededError'')"
    by (simp add: manager_defs situation_defs toString36.simps Let_def)
  show ?thesis
    using h failed_activation_resets_flag [OF h, of env_ok] by simp
qed

subsection \<open>The aggregate and the caller\<close>

lemma activate_idle_summary:
  assumes "\<not> isEmergencyActive s"
    and "requestFailure (storageEnv e) = None"
    and "\<not> key_exists (generateEmergencyId (idTime e) (idRandom e)) (emergencies s)"
  shows "let eid = generateEmergencyId (idTime e) (idRandom e);
             d = fst (executeEmergencyProcedures e
                        (s\<lparr> isEmergencyActive := True, emergencyStartTime := Some (dateNow e),
                             currentEmergencyId := Some eid \<rparr>))
         in fst (activateEmergency e s) =
              Inr (Some \<lparr> sum_emergencyId = eid,
                          alertsSent = totalSent (fst (sendEmergencyAlerts e s d)),
                          sum_location = ed_location d,
                          sum_recording = ed_audioRecording d \<rparr>)"
proof -
  have "fst (saveEmergency (storageEnv e)
               (activation_row (generateEmergencyId (idTime e) (idRandom e)) t d r)
               (emergencies s))
          = Inr (generateEmergencyId (idTime e) (idRandom e))" for t d r
    using assms(2,3)
    by (simp add: saveEmergency_def saveEmergency_data_def store_add_def activation_row_def
        generateEmergencyId_nonempty Let_def)
  then show ?thesis
    using assms(1)
    by (simp add: activateEmergency_def case_prod_beta Let_def dispatch_ignores_manager_fields)
qed

text \<open>
  Claim C4. For every environment, whatever each channel answers, the result of
  \<open>sendEmergencyAlerts\<close> counts the answers: each channel's \<open>sent\<close> is the number of
  its calls that succeeded and its \<open>failed\<close> the number that failed (for Firebase, one
  failure when \<open>saveEmergencyAlert\<close> fails, and otherwise one count per contact notified),
  both \<open>0\<close> for a channel that is not attempted, and \<open>totalSent\<close> and \<open>totalFailed\<close> are
  the sums over the three channels. No failure of a channel reaches the caller: an
  activation that starts with no active emergency and whose record the store accepts
  returns its summary, with \<open>alertsSent\<close> the \<open>totalSent\<close> of the dispatch.
\<close>

theorem dispatch_counts_channel_answers:
  "let r = fst (sendEmergencyAlerts e s d);
       n = length (ed_contacts d);
       notified = (\<lambda>i. sendEmergencyNotification e i = None);
       bt = (hasBluetooth s \<and> ed_contacts d \<noteq> []);
       fb = (hasFirebase s \<and> online e \<and> ed_contacts d \<noteq> []);
       told = (if hasFirebase s then sendEmergencyToAuthorities e = None
               else (case fetchNotifyAuthorities e of Inl err \<Rightarrow> False | Inr (ok, status) \<Rightarrow> ok));
       eid = generateEmergencyId (idTime e) (idRandom e);
       context = fst (executeEmergencyProcedures e
                        (s\<lparr> isEmergencyActive := True, emergencyStartTime := Some (dateNow e),
                             currentEmergencyId := Some eid \<rparr>))
   in sent (bluetooth r) = (if bt \<and> broadcastEmergency e = None then 1 else 0)
    \<and> failed (bluetooth r) = (if bt \<and> broadcastEmergency e \<noteq> None then 1 else 0)
    \<and> sent (firebase r) =
        (if fb \<and> saveEmergencyAlert e = None then length (filter notified [0..<n]) else 0)
    \<and> failed (firebase r) =
        (if fb then (if saveEmergencyAlert e = None
                     then length (filter (\<lambda>i. \<not> notified i) [0..<n]) else 1)
         else 0)
    \<and> sent (authorities r) = (if online e \<and> told then 1 else 0)
    \<and> failed (authorities r) = (if online e \<and> \<not> told then 1 else 0)
    \<and> totalSent r = sent (bluetooth r) + sent (firebase r) + sent (authorities r)
    \<and> totalFailed r = failed (bluetooth r) + failed (firebase r) + failed (authorities r)
    \<and> (\<not> isEmergencyActive s \<and> requestFailure (storageEnv e) = None
        \<and> \<not> key_exists eid (emergencies s) \<longrightarrow>
        (\<exists>sm. fst (activateEmergency e s) = Inr (Some sm)
              \<and> alertsSent sm = totalSent (fst (sendEmergencyAlerts e s context))))"
proof -
  let ?r = "fst (sendEmergencyAlerts e s d)"
  have bt: "sent (bluetooth ?r) =
              (if (hasBluetooth s \<and> ed_contacts d \<noteq> []) \<and> broadcastEmergency e = None
               then 1 else 0)
            \<and> failed (bluetooth ?r) =
              (if (hasBluetooth s \<and> ed_contacts d \<noteq> []) \<and> broadcastEmergency e \<noteq> None
               then 1 else 0)"
    by (auto simp: dispatch_bluetooth_result split: option.splits)
  have fb: "sent (firebase ?r) =
              (if (hasFirebase s \<and> online e \<and> ed_contacts d \<noteq> []) \<and> saveEmergencyAlert e = None
               then length (filter (\<lambda>i. sendEmergencyNotification e i = None)
                              [0..<length (ed_contacts d)])
               else 0)
            \<and> failed (firebase ?r) =
              (if hasFirebase s \<and> online e \<and> ed_contacts d \<noteq> [] then
                 (if saveEmergencyAlert e = None
                  then length (filter (\<lambda>i. \<not> sendEmergencyNotification e i = None)
                                 [0..<length (ed_contacts d)])
                  else 1)
               else 0)"
    by (auto simp: dispatch_firebase_result notifyContacts_sent notifyContacts_failed
        split: option.splits)
  have au: "sent (authorities ?r) =
              (if online e \<and>
                  (if hasFirebase s then sendEmergencyToAuthorities e = None
                   else (case fetchNotifyAuthorities e of
                           Inl err \<Rightarrow> False | Inr (ok, status) \<Rightarrow> ok))
               then 1 else 0)
            \<and> failed (authorities ?r) =
              (if online e \<and>
                  \<not> (if hasFirebase s then sendEmergencyToAuthorities e = None
                     else (case fetchNotifyAuthorities e of
                             Inl err \<Rightarrow> False | Inr (ok, status) \<Rightarrow> ok))
               then 1 else 0)"
    by (auto simp: dispatch_authorities_result split: option.splits sum.splits)
  show ?thesis
    unfolding Let_def
    apply (intro conjI impI)
    subgoal using bt by simp
    subgoal using bt by simp
    subgoal using fb by simp
    subgoal using fb by simp
    subgoal using au by simp
    subgoal using au by simp
    subgoal using dispatch_totals [of e s d] by simp
    subgoal using dispatch_totals [of e s d] by simp
    subgoal using activate_idle_summary [of s e] by (simp add: Let_def)
    done
qed

text \<open>
  With every channel failing: nothing sent, three failed, and the activation still
  returns its summary, with no alert sent. With only the notification of the contact
  failing: two sent, one failed.
\<close>

theorem dispatch_counts_channel_answers_witness:
  "sent (bluetooth (fst (sendEmergencyAlerts env_channels_fail ready data_alice))) = 0
   \<and> failed (bluetooth (fst (sendEmergencyAlerts env_channels_fail ready data_alice))) = 1
   \<and> sent (firebase (fst (sendEmergencyAlerts env_channels_fail ready data_alice))) = 0
   \<and> failed (firebase (fst (sendEmergencyAlerts env_channels_fail ready data_alice))) = 1
   \<and> sent (authorities (fst (sendEmergencyAlerts env_channels_fail ready data_alice))) = 0
   \<and> failed (authorities (fst (sendEmergencyAlerts env_channels_fail ready data_alice))) = 1
   \<and> totalSent (fst (sendEmergencyAlerts env_channels_fail ready data_alice)) = 0
   \<and> totalFailed (fst (sendEmergencyAlerts env_channels_fail ready data_alice)) = 3
   \<and> (\<exists>sm. fst (activateEmergency env_channels_fail ready) = Inr (Some sm) \<and> alertsSent sm = 0)
   \<and> sent (firebase (fst (sendEmergencyAlerts env_notification_fails ready data_alice))) = 0
   \<and> failed (firebase (fst (sendEmergencyAlerts env_notification_fails ready data_alice))) = 1
   \<and> totalSent (fst (sendEmergencyAlerts env_notification_fails ready data_alice)) = 2
   \<and> totalFailed (fst (sendEmergencyAlerts env_notification_fails ready data_alice)) = 1"
proof -
  have h: "\<not> isEmergencyActive ready \<and> requestFailure (storageEnv env_channels_fail) = None
           \<and> \<not> key_exists (generateEmergencyId (idTime env_channels_fail)
                               (idRandom env_channels_fail)) (emergencies ready)"
    by (simp add: situation_defs init_def constructor_def key_exists_def)
  have c: "totalSent (fst (sendEmergencyAlerts env_channels_fail ready
             (fst (executeEmergencyProcedures env_channels_fail
                (ready\<lparr> isEmergencyActive := True,
                        emergencyStartTime := Some (dateNow env_channels_fail),
                        currentEmergencyId :=
                          Some (generateEmergencyId (idTime env_channels_fail)
                                  (idRandom env_channels_fail)) \<rparr>))))) = 0"
    by (simp add: manager_defs situation_defs)
  have v: "hasBluetooth ready \<and> hasFirebase ready \<and> ed_contacts data_alice = [alice]
           \<and> online env_channels_fail \<and> online env_notification_fails
           \<and> broadcastEmergency env_channels_fail = Some (Error ''GATT operation failed'')
           \<and> saveEmergencyAlert env_channels_fail = Some (Error ''unavailable'')
           \<and> sendEmergencyToAuthorities env_channels_fail
               = Some (Error ''Firebase not initialized'')
           \<and> broadcastEmergency env_notification_fails = None
           \<and> saveEmergencyAlert env_notification_fails = None
           \<and> sendEmergencyToAuthorities env_notification_fails = None
           \<and> sendEmergencyNotification env_notification_fails
               = (\<lambda>i. Some (Error ''permission-denied''))"
    by (simp add: situation_defs init_def constructor_def)
  show ?thesis
    using h c v
      dispatch_counts_channel_answers [of env_channels_fail ready data_alice]
      dispatch_counts_channel_answers [of env_notification_fails ready data_alice]
    by (simp add: Let_def)
qed

section \<open>Cancellation\<close>

lemma stopAndSave_emergencies: "emergencies (stopAndSaveRecording e s) = emergencies s"
  by (simp add: stopAndSaveRecording_def split: sum.splits option.splits)

lemma stopAndSave_fields:
  "currentEmergencyId (stopAndSaveRecording e s) = currentEmergencyId s \<and>
   emergencyStartTime (stopAndSaveRecording e s) = emergencyStartTime s"
  by (simp add: stopAndSaveRecording_def split: sum.splits option.splits)

lemma stopAndSave_trace:
  "\<exists>evs. trace (stopAndSaveRecording e s) = trace s @ evs \<and>
         (\<forall>ev\<in>set evs. \<not> is_emergency_dispatch ev)"
  by (auto simp: stopAndSaveRecording_def split: sum.splits option.splits)

lemma saveCancellation_get:
  "store_get k (emergencies s) = Some r \<Longrightarrow>
   store_get k (emergencies (saveCancellation e s)) = Some r"
  by (auto simp: saveCancellation_def case_prod_beta Let_def saveEmergency_get
      split: option.splits)

lemma saveCancellation_store:
  "emergencies (saveCancellation e s) = emergencies s \<or>
   (\<exists>cur. currentEmergencyId s = Some cur \<and>
       emergencies (saveCancellation e s) =
         insort_key rec_id (saveEmergency_data (storageEnv e) (cancellation_row e s cur))
           (emergencies s))"
proof (cases "currentEmergencyId s")
  case None
  then show ?thesis by (simp add: saveCancellation_def)
next
  case (Some cur)
  show ?thesis
  proof (cases "cur = []")
    case True
    with Some show ?thesis by (simp add: saveCancellation_def)
  next
    case False
    with Some have "emergencies (saveCancellation e s) =
        snd (saveEmergency (storageEnv e) (cancellation_row e s cur) (emergencies s))"
      by (simp add: saveCancellation_def case_prod_beta Let_def)
    with saveEmergency_store [of "storageEnv e" "cancellation_row e s cur" "emergencies s"] Some
    show ?thesis
      by auto
  qed
qed

lemma cancellation_row_after_stop:
  "cancellation_row e (stopAndSaveRecording e s) cur = cancellation_row e s cur"
  by (simp add: cancellation_row_def stopAndSave_fields)

lemma saveCancellation_trace:
  "\<exists>evs. trace (saveCancellation e s) = trace s @ evs \<and>
         (\<forall>ev\<in>set evs. \<not> is_emergency_dispatch ev)"
  by (auto simp: saveCancellation_def case_prod_beta Let_def split: option.splits)

lemma notifyCancellation_events:
  "ev \<in> set (notifyCancellation f i cs) \<Longrightarrow> \<not> is_emergency_dispatch ev"
  by (induction f i cs rule: notifyCancellation.induct) (auto split: option.splits)

lemma cancellation_alert_events:
  "ev \<in> set (sendCancellationAlerts e s) \<Longrightarrow> \<not> is_emergency_dispatch ev"
  by (auto simp: sendCancellationAlerts_def dest: notifyCancellation_events
      split: if_splits sum.splits)

lemma cancel_emergencies:
  "emergencies (snd (cancelEmergency e s)) =
     (if isEmergencyActive s then emergencies (saveCancellation e (stopAndSaveRecording e s))
      else emergencies s)"
  by (simp add: cancelEmergency_def Let_def)

lemma cancel_trace:
  "\<exists>evs. trace (snd (cancelEmergency e s)) = trace s @ evs \<and>
         (\<forall>ev\<in>set evs. \<not> is_emergency_dispatch ev)"
proof (cases "isEmergencyActive s")
  case False
  then show ?thesis by (simp add: cancelEmergency_def)
next
  case True
  obtain ev1 where 1: "trace (stopAndSaveRecording e s) = trace s @ ev1"
      and n1: "\<forall>ev\<in>set ev1. \<not> is_emergency_dispatch ev"
    using stopAndSave_trace [of e s] by blast
  obtain ev2 where
      2: "trace (saveCancellation e (stopAndSaveRecording e s))
            = trace (stopAndSaveRecording e s) @ ev2"
      and n2: "\<forall>ev\<in>set ev2. \<not> is_emergency_dispatch ev"
    using saveCancellation_trace [of e "stopAndSaveRecording e s"] by blast
  let ?ev3 = "sendCancellationAlerts e (saveCancellation e (stopAndSaveRecording e s))"
  have n3: "\<forall>ev\<in>set ?ev3. \<not> is_emergency_dispatch ev"
    using cancellation_alert_events by blast
  have "trace (snd (cancelEmergency e s)) = trace s @ (ev1 @ ev2 @ ?ev3)"
    using True by (simp add: cancelEmergency_def Let_def 1 2)
  moreover have "\<forall>ev\<in>set (ev1 @ ev2 @ ?ev3). \<not> is_emergency_dispatch ev"
    using n1 n2 n3 by auto
  ultimately show ?thesis by blast
qed

text \<open>
  Claim C7. Whatever row the store holds under a key before \<open>cancelEmergency\<close> (in
  particular the record of the emergency, with the \<open>sent\<close> counts its dispatch recorded),
  the store holds the same row under that key afterwards. The store after the call is
  the store before it, or that store with one more row, the cancellation entry for the
  current emergency. The call makes no send of the emergency alert, and from an active
  state it leaves the manager with no active emergency and no current emergency id, so
  the manager has no emergency left to dispatch for.
\<close>

theorem cancel_keeps_history:
  assumes "store_get k (emergencies s) = Some r"
  shows "store_get k (emergencies (snd (cancelEmergency e s))) = Some r
       \<and> (emergencies (snd (cancelEmergency e s)) = emergencies s \<or>
          (\<exists>cur. currentEmergencyId s = Some cur \<and>
             emergencies (snd (cancelEmergency e s)) =
               insort_key rec_id (saveEmergency_data (storageEnv e) (cancellation_row e s cur))
                 (emergencies s)))
       \<and> (\<exists>evs. trace (snd (cancelEmergency e s)) = trace s @ evs \<and>
                 (\<forall>ev\<in>set evs. \<not> is_emergency_dispatch ev))
       \<and> (isEmergencyActive s \<longrightarrow>
             \<not> isEmergencyActive (snd (cancelEmergency e s)) \<and>
             currentEmergencyId (snd (cancelEmergency e s)) = None)"
proof (intro conjI)
  show "store_get k (emergencies (snd (cancelEmergency e s))) = Some r"
    using assms by (simp add: cancel_emergencies saveCancellation_get stopAndSave_emergencies)
  show "emergencies (snd (cancelEmergency e s)) = emergencies s \<or>
          (\<exists>cur. currentEmergencyId s = Some cur \<and>
             emergencies (snd (cancelEmergency e s)) =
               insort_key rec_id (saveEmergency_data (storageEnv e) (cancellation_row e s cur))
                 (emergencies s))"
    using saveCancellation_store [of e "stopAndSaveRecording e s"]
    by (auto simp: cancel_emergencies stopAndSave_emergencies stopAndSave_fields
        cancellation_row_after_stop)
  show "\<exists>evs. trace (snd (cancelEmergency e s)) = trace s @ evs \<and>
                 (\<forall>ev\<in>set evs. \<not> is_emergency_dispatch ev)"
    by (rule cancel_trace)
  show "isEmergencyActive s \<longrightarrow>
             \<not> isEmergencyActive (snd (cancelEmergency e s)) \<and>
             currentEmergencyId (snd (cancelEmergency e s)) = None"
    by (simp add: cancelEmergency_def Let_def)
qed

text \<open>
  The emergency of \<open>active\<close> was sent over Bluetooth; after its cancellation the store
  holds the same row under its id, beside the cancellation entry.
\<close>

theorem cancel_keeps_history_witness:
  "store_get ''emer_rs_k3x9q'' (emergencies active) = Some (hd (emergencies active))
   \<and> map_option (\<lambda>a. sent (bluetooth a)) (rec_alertResults (hd (emergencies active))) = Some 1
   \<and> isEmergencyActive active
   \<and> store_get ''emer_rs_k3x9q'' (emergencies cancelled) = Some (hd (emergencies active))
   \<and> map rec_id (emergencies cancelled) = [''emer_rs_k3x9q'', ''emer_rs_k3x9q-cancelled'']
   \<and> \<not> isEmergencyActive cancelled
   \<and> currentEmergencyId cancelled = None"
proof -
  have h: "store_get ''emer_rs_k3x9q'' (emergencies active) = Some (hd (emergencies active))"
    by (simp add: active_state store_get_def)
  have a: "isEmergencyActive active"
    by (simp add: active_state)
  have "store_get ''emer_rs_k3x9q'' (emergencies cancelled) = Some (hd (emergencies active))
        \<and> \<not> isEmergencyActive cancelled \<and> currentEmergencyId cancelled = None"
    using cancel_keeps_history [OF h, of env_ok] a unfolding cancelled_def by blast
  then show ?thesis
    using h a by (simp add: cancelled_store active_state)
qed

section \<open>The Bluetooth queue and retrying\<close>

lemma sendMessage_cases:
  "snd (sendMessage w m b) = b\<lparr>written := written b @ [m]\<rparr> \<or>
   snd (sendMessage w m b) = b\<lparr>messageQueue := messageQueue b @ [m]\<rparr>"
  by (simp add: sendMessage_def split: option.splits)

lemma sendMessage_mset:
  "mset (written (snd (sendMessage w m b))) + mset (messageQueue (snd (sendMessage w m b))) =
   mset (written b) + mset (messageQueue b) + {#m#}"
  by (simp add: sendMessage_def split: option.splits)

lemma sendQueued_mset:
  "mset (written (sendQueued w i ms b)) + mset (messageQueue (sendQueued w i ms b)) =
   mset (written b) + mset (messageQueue b) + mset ms"
proof (induction ms arbitrary: i b)
  case Nil
  then show ?case by simp
next
  case (Cons m ms)
  have "mset (written (sendQueued w i (m # ms) b))
          + mset (messageQueue (sendQueued w i (m # ms) b)) =
        mset (written (snd (sendMessage (w i) m b)))
          + mset (messageQueue (snd (sendMessage (w i) m b))) + mset ms"
    by (simp add: Cons.IH)
  also have "\<dots> = mset (written b) + mset (messageQueue b) + {#m#} + mset ms"
    by (simp only: sendMessage_mset)
  finally show ?case by simp
qed

lemma processMessageQueue_mset:
  "mset (written (processMessageQueue w b)) + mset (messageQueue (processMessageQueue w b)) =
   mset (written b) + mset (messageQueue b)"
  by (simp add: processMessageQueue_def sendQueued_mset)

lemma connect_mset:
  "mset (written (snd (connect c w b))) + mset (messageQueue (snd (connect c w b))) =
   mset (written b) + mset (messageQueue b)"
  by (cases c) (simp_all add: connect_def processMessageQueue_mset)

lemma sendMessage_state:
  "snd (sendMessage w m b) =
     (if isConnected b \<and> hasCharacteristic b \<and> w = None
      then b\<lparr>written := written b @ [m]\<rparr>
      else b\<lparr>messageQueue := messageQueue b @ [m]\<rparr>)"
  by (auto simp: sendMessage_def split: option.splits)

lemma sendQueued_connected:
  "isConnected b \<Longrightarrow> hasCharacteristic b \<Longrightarrow>
   sendQueued w i ms b =
     b\<lparr> messageQueue :=
          messageQueue b @ map snd (filter (\<lambda>(j, m). w j \<noteq> None) (enumerate i ms)),
        written := written b @ map snd (filter (\<lambda>(j, m). w j = None) (enumerate i ms)) \<rparr>"
proof (induction ms arbitrary: i b)
  case Nil
  then show ?case by simp
next
  case (Cons m ms)
  show ?case
  proof (cases "w i")
    case None
    with Cons.prems have "snd (sendMessage (w i) m b) = b\<lparr>written := written b @ [m]\<rparr>"
      by (simp add: sendMessage_state)
    with Cons.prems None show ?thesis
      by (simp add: Cons.IH)
  next
    case (Some err)
    with Cons.prems have "snd (sendMessage (w i) m b) = b\<lparr>messageQueue := messageQueue b @ [m]\<rparr>"
      by (simp add: sendMessage_state)
    with Cons.prems Some show ?thesis
      by (simp add: Cons.IH)
  qed
qed

lemma sendQueued_disconnected:
  "\<not> (isConnected b \<and> hasCharacteristic b) \<Longrightarrow>
   sendQueued w i ms b = b\<lparr>messageQueue := messageQueue b @ ms\<rparr>"
proof (induction ms arbitrary: i b)
  case Nil
  then show ?case by simp
next
  case (Cons m ms)
  from Cons.prems have "snd (sendMessage (w i) m b) = b\<lparr>messageQueue := messageQueue b @ [m]\<rparr>"
    by (auto simp: sendMessage_state)
  with Cons.prems show ?case
    by (simp add: Cons.IH)
qed

lemma processMessageQueue_result:
  "processMessageQueue ws b =
     (if isConnected b \<and> hasCharacteristic b
      then b\<lparr> messageQueue :=
                 map snd (filter (\<lambda>(j, m). ws j \<noteq> None) (enumerate 0 (messageQueue b))),
               written :=
                 written b @
                 map snd (filter (\<lambda>(j, m). ws j = None) (enumerate 0 (messageQueue b))) \<rparr>
      else b)"
proof (cases "messageQueue b = []")
  case True
  then show ?thesis by (simp add: processMessageQueue_def)
next
  case False
  show ?thesis
  proof (cases "isConnected b \<and> hasCharacteristic b")
    case True
    then have "sendQueued ws 0 (messageQueue b) (b\<lparr>messageQueue := []\<rparr>) =
        (b\<lparr>messageQueue := []\<rparr>)
          \<lparr> messageQueue :=
               messageQueue (b\<lparr>messageQueue := []\<rparr>) @
               map snd (filter (\<lambda>(j, m). ws j \<noteq> None) (enumerate 0 (messageQueue b))),
             written :=
               written (b\<lparr>messageQueue := []\<rparr>) @
               map snd (filter (\<lambda>(j, m). ws j = None) (enumerate 0 (messageQueue b))) \<rparr>"
      by (intro sendQueued_connected) simp_all
    with True False show ?thesis
      by (simp add: processMessageQueue_def)
  next
    case disconnected: False
    then have "sendQueued ws 0 (messageQueue b) (b\<lparr>messageQueue := []\<rparr>) =
        (b\<lparr>messageQueue := []\<rparr>)
          \<lparr>messageQueue := messageQueue (b\<lparr>messageQueue := []\<rparr>) @ messageQueue b\<rparr>"
      by (intro sendQueued_disconnected) simp
    with disconnected False show ?thesis
      by (auto simp: processMessageQueue_def)
  qed
qed

lemma connect_result:
  "snd (connect Connected ws b) =
     b\<lparr> hasCharacteristic := True, isConnected := True,
        messageQueue :=
          map snd (filter (\<lambda>(j, m). ws j \<noteq> None) (enumerate 0 (messageQueue b))),
        written :=
          written b @
          map snd (filter (\<lambda>(j, m). ws j = None) (enumerate 0 (messageQueue b))) \<rparr>"
  by (simp add: connect_def processMessageQueue_result)

lemma accepted_rejected_mset:
  "mset (map snd (filter (\<lambda>(j, m). w j = None) (enumerate i ms)))
   + mset (map snd (filter (\<lambda>(j, m). w j \<noteq> None) (enumerate i ms))) = mset ms"
  by (induction ms arbitrary: i) auto

text \<open>
  Claim C10. A message handed to \<open>sendMessage\<close> is written to the characteristic when
  the manager is connected and the write succeeds, and is appended to the queue
  otherwise. \<open>processMessageQueue\<close> on a connected manager attempts the write of every
  queued message: those the device accepts are written, in order, and those it rejects
  are the new queue; on a manager that is not connected the queue stays as it is. A
  \<open>connect\<close> that succeeds does this to the whole queue, and a \<open>connect\<close> that fails
  leaves the queue alone. The accepted and the rejected messages together are the
  messages that were queued, so in every case each message is written or still queued.
\<close>

theorem bluetooth_message_not_dropped:
  "let accepted = map snd (filter (\<lambda>(j, m). ws j = None) (enumerate 0 (messageQueue b)));
       rejected = map snd (filter (\<lambda>(j, m). ws j \<noteq> None) (enumerate 0 (messageQueue b)))
   in snd (sendMessage w m b) =
        (if isConnected b \<and> hasCharacteristic b \<and> w = None
         then b\<lparr>written := written b @ [m]\<rparr>
         else b\<lparr>messageQueue := messageQueue b @ [m]\<rparr>)
    \<and> processMessageQueue ws b =
        (if isConnected b \<and> hasCharacteristic b
         then b\<lparr>messageQueue := rejected, written := written b @ accepted\<rparr>
         else b)
    \<and> snd (connect Connected ws b) =
        b\<lparr> hasCharacteristic := True, isConnected := True,
           messageQueue := rejected, written := written b @ accepted \<rparr>
    \<and> mset accepted + mset rejected = mset (messageQueue b)
    \<and> mset (written (snd (connect c ws b))) + mset (messageQueue (snd (connect c ws b)))
        = mset (written b) + mset (messageQueue b)"
  unfolding Let_def
  by (intro conjI sendMessage_state processMessageQueue_result connect_result
      accepted_rejected_mset connect_mset)

text \<open>
  A connected manager with two queued messages: a send whose write fails is queued behind
  them. The manager loses the connection and connects again to a device that rejects the
  first write: the second message is written and the first is queued again. With a device
  that accepts every write, processing the queue writes both.
\<close>

theorem bluetooth_message_not_dropped_witness:
  "snd (sendMessage (Some (Error ''GATT operation failed'')) ''sos'' bluetooth_queued)
     = bluetooth_queued\<lparr>messageQueue := [''alert'', ''ack'', ''sos'']\<rparr>
   \<and> snd (connect Connected write_first_fails (onDisconnected bluetooth_queued))
     = bluetooth_queued\<lparr> messageQueue := [''alert''], written := [''ack''],
                         timers := [(3000, AttemptReconnect)] \<rparr>
   \<and> processMessageQueue write_ok bluetooth_queued
     = bluetooth_queued\<lparr>messageQueue := [], written := [''alert'', ''ack'']\<rparr>"
proof -
  have q: "isConnected bluetooth_queued \<and> hasCharacteristic bluetooth_queued
           \<and> messageQueue bluetooth_queued = [''alert'', ''ack'']
           \<and> written bluetooth_queued = [] \<and> timers bluetooth_queued = []"
    by (simp add: bluetooth_queued_def bluetooth_connected_def bluetooth_constructor_def)
  have d: "onDisconnected bluetooth_queued
             = bluetooth_queued\<lparr> isConnected := False, hasCharacteristic := False,
                                 timers := [(3000, AttemptReconnect)] \<rparr>"
    by (simp add: onDisconnected_def q)
  show ?thesis
    using q
      bluetooth_message_not_dropped
        [of write_ok bluetooth_queued "Some (Error ''GATT operation failed'')" "''sos''" Connected]
      bluetooth_message_not_dropped
        [of write_first_fails "onDisconnected bluetooth_queued" None "''sos''" Connected]
    by (simp add: Let_def d write_ok_def write_first_fails_def enumerate_eq_zip)
qed

section \<open>Failed sends and retrying\<close>

lemma notifyContacts_result:
  "notifyContacts f 0 cs \<lparr>sent = 0, failed = 0, errors = []\<rparr> =
     \<lparr> sent = length (filter (\<lambda>j. f j = None) [0..<length cs]),
       failed = length (filter (\<lambda>j. f j \<noteq> None) [0..<length cs]),
       errors = concat (map (\<lambda>(j, c). case f j of None \<Rightarrow> []
                                     | Some err \<Rightarrow> [contact_email c @ '': '' @ message err])
                          (enumerate 0 cs)) \<rparr>"
  by (rule channel_result.equality)
     (simp_all add: notifyContacts_sent notifyContacts_failed notifyContacts_errors)

lemma sendMessage_write_fails:
  "isConnected b \<and> hasCharacteristic b \<Longrightarrow>
   sendMessage (Some err) m b = (Inl err, b\<lparr>messageQueue := messageQueue b @ [m]\<rparr>)"
  by (simp add: sendMessage_def)

lemma processMessageQueue_all_rejected:
  "\<forall>j. ws j \<noteq> None \<Longrightarrow> processMessageQueue ws b = b"
  by (simp add: processMessageQueue_result case_prod_beta)

lemma connect_all_accepted:
  "\<forall>j. ws j = None \<Longrightarrow>
   snd (connect Connected ws b) =
     b\<lparr> hasCharacteristic := True, isConnected := True, messageQueue := [],
        written := written b @ messageQueue b \<rparr>"
  by (simp add: connect_result case_prod_beta)

lemma attemptReconnect_failed:
  "attemptReconnect (ConnectFailed err a) ws b =
     b\<lparr> hasCharacteristic := (a \<or> hasCharacteristic b), isConnected := False,
        timers := timers b @ [(10000, AttemptReconnect)] \<rparr>"
  by (simp add: attemptReconnect_def connect_def)

text \<open>
  Claim C5, as the code has it. The code keeps no attempt counter, no \<open>nextRetryAt\<close> and
  no backoff. A dispatch calls each channel that it attempts once, and each contact's
  notification once, whatever the calls answer: the calls it makes are determined by the
  guards and by the answer of \<open>saveEmergencyAlert\<close> alone. A call that fails adds one to
  its channel's \<open>failed\<close> count and its message to the channel's \<open>errors\<close>: the error's
  own message, the contact's e-mail address before it for a notification, and the HTTP
  status for a refused request to the authorities. The constants \<open>retryAttempts\<close> and
  \<open>retryDelay\<close> have no effect on the dispatch.

  The Bluetooth manager does retry, on its own. A message whose write fails is put on
  the queue; processing the queue while the device rejects every write leaves the manager
  as it was, the message still queued, however often it is done; a successful \<open>connect\<close>
  to a device that accepts the writes writes the queued messages. A failed
  \<open>attemptReconnect\<close> schedules the next attempt after 10000 ms, in every state of the
  manager: the delay does not grow, and there is no last attempt.
\<close>

theorem failure_counted_without_backoff:
  "let r = fst (sendEmergencyAlerts e s d);
       eid = ed_emergencyId d;
       viaBluetooth = (hasBluetooth s \<and> ed_contacts d \<noteq> []);
       viaFirebase = (hasFirebase s \<and> online e \<and> ed_contacts d \<noteq> [])
   in snd (sendEmergencyAlerts e s d) =
        (if viaBluetooth then [BroadcastEmergency eid] else []) @
        (if viaFirebase then [SaveEmergencyAlert eid] else []) @
        (if online e
         then [if hasFirebase s then SendEmergencyToAuthorities eid
               else FetchNotifyAuthorities eid]
         else []) @
        (if viaFirebase \<and> saveEmergencyAlert e = None
         then map (\<lambda>c. SendEmergencyNotification (contact_id c) EmergencyAlert) (ed_contacts d)
         else [])
    \<and> (viaBluetooth \<longrightarrow>
         bluetooth r =
           (case broadcastEmergency e of
              None \<Rightarrow> \<lparr>sent = 1, failed = 0, errors = []\<rparr>
            | Some err \<Rightarrow> \<lparr>sent = 0, failed = 1, errors = [message err]\<rparr>))
    \<and> (viaFirebase \<longrightarrow>
         firebase r =
           (case saveEmergencyAlert e of
              Some err \<Rightarrow> \<lparr>sent = 0, failed = 1, errors = [message err]\<rparr>
            | None \<Rightarrow>
                \<lparr> sent = length (filter (\<lambda>j. sendEmergencyNotification e j = None)
                                   [0..<length (ed_contacts d)]),
                  failed = length (filter (\<lambda>j. sendEmergencyNotification e j \<noteq> None)
                                     [0..<length (ed_contacts d)]),
                  errors = concat (map (\<lambda>(j, c). case sendEmergencyNotification e j of
                                                    None \<Rightarrow> []
                                                  | Some err \<Rightarrow>
                                                      [contact_email c @ '': '' @ message err])
                                     (enumerate 0 (ed_contacts d))) \<rparr>))
    \<and> (online e \<longrightarrow>
         authorities r =
           (if hasFirebase s then
              (case sendEmergencyToAuthorities e of
                 None \<Rightarrow> \<lparr>sent = 1, failed = 0, errors = []\<rparr>
               | Some err \<Rightarrow> \<lparr>sent = 0, failed = 1, errors = [message err]\<rparr>)
            else
              (case fetchNotifyAuthorities e of
                 Inl err \<Rightarrow> \<lparr>sent = 0, failed = 1, errors = [message err]\<rparr>
               | Inr (ok, status) \<Rightarrow>
                   if ok then \<lparr>sent = 1, failed = 0, errors = []\<rparr>
                   else \<lparr>sent = 0, failed = 1,
                          errors = [''Authority notification failed: '' @ toString10 status]\<rparr>)))
    \<and> sendEmergencyAlerts e (s\<lparr>retryAttempts := n, retryDelay := k\<rparr>) d
        = sendEmergencyAlerts e s d
    \<and> (isConnected b \<and> hasCharacteristic b \<longrightarrow>
         sendMessage (Some err1) m b = (Inl err1, b\<lparr>messageQueue := messageQueue b @ [m]\<rparr>))
    \<and> ((\<forall>j. ws j \<noteq> None) \<longrightarrow> processMessageQueue ws b = b)
    \<and> ((\<forall>j. ws j = None) \<longrightarrow>
         snd (connect Connected ws b) =
           b\<lparr> hasCharacteristic := True, isConnected := True, messageQueue := [],
              written := written b @ messageQueue b \<rparr>)
    \<and> attemptReconnect (ConnectFailed err2 a) ws b =
        b\<lparr> hasCharacteristic := (a \<or> hasCharacteristic b), isConnected := False,
           timers := timers b @ [(10000, AttemptReconnect)] \<rparr>"
  unfolding Let_def
  apply (intro conjI impI)
  subgoal by (simp add: dispatch_events)
  subgoal by (simp add: dispatch_bluetooth_result)
  subgoal by (simp add: dispatch_firebase_result notifyContacts_result split: option.splits)
  subgoal by (simp add: dispatch_authorities_result)
  subgoal by (rule dispatch_ignores_retry)
  subgoal by (rule sendMessage_write_fails)
  subgoal by (rule processMessageQueue_all_rejected)
  subgoal by (rule connect_all_accepted)
  subgoal by (rule attemptReconnect_failed)
  done

text \<open>
  Every channel fails: each is called once and counts one failure. The notification of
  the one contact fails: the failure is counted with the contact's address. Without a
  Firebase manager the authorities are reached by a request, which the server refuses with
  status 503. On the Bluetooth side: a write fails and the message is queued; the device
  goes on rejecting and the two queued messages stay; a reconnection to a device that
  accepts writes them; a failed reconnection leaves a timer of 10000 ms.
\<close>

theorem failure_counted_without_backoff_witness:
  "snd (sendEmergencyAlerts env_channels_fail ready data_alice)
     = [BroadcastEmergency (Some ''emer_rs_k3x9q''), SaveEmergencyAlert (Some ''emer_rs_k3x9q''),
        SendEmergencyToAuthorities (Some ''emer_rs_k3x9q'')]
   \<and> bluetooth (fst (sendEmergencyAlerts env_channels_fail ready data_alice))
     = \<lparr>sent = 0, failed = 1, errors = [''GATT operation failed'']\<rparr>
   \<and> firebase (fst (sendEmergencyAlerts env_channels_fail ready data_alice))
     = \<lparr>sent = 0, failed = 1, errors = [''unavailable'']\<rparr>
   \<and> authorities (fst (sendEmergencyAlerts env_channels_fail ready data_alice))
     = \<lparr>sent = 0, failed = 1, errors = [''Firebase not initialized'']\<rparr>
   \<and> snd (sendEmergencyAlerts env_notification_fails ready data_alice)
     = [BroadcastEmergency (Some ''emer_rs_k3x9q''), SaveEmergencyAlert (Some ''emer_rs_k3x9q''),
        SendEmergencyToAuthorities (Some ''emer_rs_k3x9q''),
        SendEmergencyNotification ''c1'' EmergencyAlert]
   \<and> firebase (fst (sendEmergencyAlerts env_notification_fails ready data_alice))
     = \<lparr>sent = 0, failed = 1, errors = [''alice@example.org: permission-denied'']\<rparr>
   \<and> snd (sendEmergencyAlerts env_fetch_refused ready_without_firebase data_alice)
     = [BroadcastEmergency (Some ''emer_rs_k3x9q''), FetchNotifyAuthorities (Some ''emer_rs_k3x9q'')]
   \<and> authorities (fst (sendEmergencyAlerts env_fetch_refused ready_without_firebase data_alice))
     = \<lparr>sent = 0, failed = 1, errors = [''Authority notification failed: 503'']\<rparr>
   \<and> sendEmergencyAlerts env_channels_fail (ready\<lparr>retryAttempts := 0, retryDelay := 0\<rparr>)
       data_alice
     = sendEmergencyAlerts env_channels_fail ready data_alice
   \<and> sendMessage (Some (Error ''GATT operation failed'')) ''sos'' bluetooth_queued
     = (Inl (Error ''GATT operation failed''),
        bluetooth_queued\<lparr>messageQueue := [''alert'', ''ack'', ''sos'']\<rparr>)
   \<and> processMessageQueue write_fails bluetooth_queued = bluetooth_queued
   \<and> snd (connect Connected write_ok (onDisconnected bluetooth_queued))
     = bluetooth_queued\<lparr> messageQueue := [], written := [''alert'', ''ack''],
                         timers := [(3000, AttemptReconnect)] \<rparr>
   \<and> attemptReconnect connect_fails write_ok (onDisconnected bluetooth_queued)
     = bluetooth_queued\<lparr> isConnected := False, hasCharacteristic := False,
                         timers := [(3000, AttemptReconnect), (10000, AttemptReconnect)] \<rparr>"
proof -
  have h: "hasBluetooth ready \<and> hasFirebase ready
           \<and> hasBluetooth ready_without_firebase \<and> \<not> hasFirebase ready_without_firebase
           \<and> ed_contacts data_alice = [alice]
           \<and> ed_emergencyId data_alice = Some ''emer_rs_k3x9q''
           \<and> contact_id alice = ''c1'' \<and> contact_email alice = ''alice@example.org''"
    by (simp add: situation_defs init_def constructor_def)
  have e1: "online env_channels_fail
            \<and> broadcastEmergency env_channels_fail = Some (Error ''GATT operation failed'')
            \<and> saveEmergencyAlert env_channels_fail = Some (Error ''unavailable'')
            \<and> sendEmergencyToAuthorities env_channels_fail
                = Some (Error ''Firebase not initialized'')"
    by (simp add: situation_defs)
  have e2: "online env_notification_fails
            \<and> saveEmergencyAlert env_notification_fails = None
            \<and> sendEmergencyNotification env_notification_fails
                = (\<lambda>i. Some (Error ''permission-denied''))"
    by (simp add: situation_defs)
  have e3: "online env_fetch_refused
            \<and> fetchNotifyAuthorities env_fetch_refused = Inr (False, 503)"
    by (simp add: situation_defs)
  have n: "toString10 503 = ''503''"
    by (simp add: toString10.simps digit_def)
  have q: "isConnected bluetooth_queued \<and> hasCharacteristic bluetooth_queued
           \<and> messageQueue bluetooth_queued = [''alert'', ''ack'']
           \<and> written bluetooth_queued = [] \<and> timers bluetooth_queued = []"
    by (simp add: bluetooth_queued_def bluetooth_connected_def bluetooth_constructor_def)
  have o: "onDisconnected bluetooth_queued
             = bluetooth_queued\<lparr> isConnected := False, hasCharacteristic := False,
                                 timers := [(3000, AttemptReconnect)] \<rparr>"
    by (simp add: onDisconnected_def q)
  have a: "snd (sendEmergencyAlerts env_channels_fail ready data_alice)
             = [BroadcastEmergency (Some ''emer_rs_k3x9q''),
                SaveEmergencyAlert (Some ''emer_rs_k3x9q''),
                SendEmergencyToAuthorities (Some ''emer_rs_k3x9q'')]
           \<and> bluetooth (fst (sendEmergencyAlerts env_channels_fail ready data_alice))
             = \<lparr>sent = 0, failed = 1, errors = [''GATT operation failed'']\<rparr>
           \<and> firebase (fst (sendEmergencyAlerts env_channels_fail ready data_alice))
             = \<lparr>sent = 0, failed = 1, errors = [''unavailable'']\<rparr>
           \<and> authorities (fst (sendEmergencyAlerts env_channels_fail ready data_alice))
             = \<lparr>sent = 0, failed = 1, errors = [''Firebase not initialized'']\<rparr>
           \<and> sendEmergencyAlerts env_channels_fail (ready\<lparr>retryAttempts := 0, retryDelay := 0\<rparr>)
               data_alice
             = sendEmergencyAlerts env_channels_fail ready data_alice
           \<and> sendMessage (Some (Error ''GATT operation failed'')) ''sos'' bluetooth_queued
             = (Inl (Error ''GATT operation failed''),
                bluetooth_queued\<lparr>messageQueue := [''alert'', ''ack'', ''sos'']\<rparr>)
           \<and> processMessageQueue write_fails bluetooth_queued = bluetooth_queued"
    using h e1 q
      failure_counted_without_backoff
        [of env_channels_fail ready data_alice 0 0 bluetooth_queued
            "Error ''GATT operation failed''" "''sos''" write_fails "Error ''NetworkError''" False]
    by (simp add: Let_def write_fails_def)
  have b: "snd (sendEmergencyAlerts env_notification_fails ready data_alice)
             = [BroadcastEmergency (Some ''emer_rs_k3x9q''),
                SaveEmergencyAlert (Some ''emer_rs_k3x9q''),
                SendEmergencyToAuthorities (Some ''emer_rs_k3x9q''),
                SendEmergencyNotification ''c1'' EmergencyAlert]
           \<and> firebase (fst (sendEmergencyAlerts env_notification_fails ready data_alice))
             = \<lparr>sent = 0, failed = 1, errors = [''alice@example.org: permission-denied'']\<rparr>"
    using h e2
      failure_counted_without_backoff
        [of env_notification_fails ready data_alice 0 0 bluetooth_queued
            "Error ''GATT operation failed''" "''sos''" write_fails "Error ''NetworkError''" False]
    by (simp add: Let_def)
  have c: "snd (sendEmergencyAlerts env_fetch_refused ready_without_firebase data_alice)
             = [BroadcastEmergency (Some ''emer_rs_k3x9q''),
                FetchNotifyAuthorities (Some ''emer_rs_k3x9q'')]
           \<and> authorities
               (fst (sendEmergencyAlerts env_fetch_refused ready_without_firebase data_alice))
             = \<lparr>sent = 0, failed = 1, errors = [''Authority notification failed: 503'']\<rparr>
           \<and> snd (connect Connected write_ok (onDisconnected bluetooth_queued))
             = bluetooth_queued\<lparr> messageQueue := [], written := [''alert'', ''ack''],
                                 timers := [(3000, AttemptReconnect)] \<rparr>
           \<and> attemptReconnect connect_fails write_ok (onDisconnected bluetooth_queued)
             = bluetooth_queued\<lparr> isConnected := False, hasCharacteristic := False,
                                 timers := [(3000, AttemptReconnect), (10000, AttemptReconnect)] \<rparr>"
    using h e3 n q
      failure_counted_without_backoff
        [of env_fetch_refused ready_without_firebase data_alice 0 0
            "onDisconnected bluetooth_queued" "Error ''GATT operation failed''" "''sos''"
            write_ok "Error ''NetworkError''" False]
    by (simp add: Let_def o write_ok_def connect_fails_def)
  from a b c show ?thesis by simp
qed

text \<open>
  With \<open>retryAttempts = 3\<close>: after a disconnection, the first failed reconnection and the
  fourth both leave a next attempt scheduled, after the same 10000 ms. An activation in
  which every channel fails calls each channel once. And two queued messages that the
  device rejects four times in a row are still queued.
\<close>

theorem reconnect_delay_constant_counterexample:
  "retryAttempts ready = 3
   \<and> timers (reconnects [connect_fails] write_ok (onDisconnected bluetooth_connected))
       = [(10000, AttemptReconnect)]
   \<and> timers (reconnects [connect_fails, connect_fails, connect_fails, connect_fails] write_ok
               (onDisconnected bluetooth_connected))
       = [(10000, AttemptReconnect)]
   \<and> filter is_channel_send (trace (snd (activateEmergency env_channels_fail ready)))
       = [BroadcastEmergency (Some ''emer_rs_k3x9q''),
          SaveEmergencyAlert (Some ''emer_rs_k3x9q''),
          SendEmergencyToAuthorities (Some ''emer_rs_k3x9q'')]
   \<and> messageQueue
       (processMessageQueue write_fails (processMessageQueue write_fails
          (processMessageQueue write_fails (processMessageQueue write_fails bluetooth_queued))))
       = [''alert'', ''ack'']"
  by (simp add: bluetooth_defs manager_defs situation_defs toString36.simps Let_def)

end
